theory Spec2Isabelle
  imports Main
begin

section \<open>Python values, Django errors, requests and responses\<close>

text \<open>
  The views of \<^verbatim>\<open>users/views.py\<close> are request handlers over the Django ORM.  The
  database is modelled as a record of tables (lists of rows); a view takes the database
  and the request and returns the database it leaves behind together with either the
  exception that escaped the view or the messages it queued and its response.

  Primary keys of \<^verbatim>\<open>Student\<close> and \<^verbatim>\<open>Professor\<close> are Python values whose
  field type is declared in \<^verbatim>\<open>users/models.py\<close>, which is not part of the sources at
  hand; they are kept as tagged Python values, since \<^verbatim>\<open>1 == "1"\<close> is false in
  Python and the views compare posted strings with stored keys.
\<close>

datatype pyval = PyInt int | PyStr string

datatype error =
    Http404
  | MultipleObjectsReturned
  | RelatedObjectDoesNotExist
  | IntegrityError
  | ValueError

datatype http_method = GET | POST | Other_method string

datatype role = ADMIN | STUDENT | PROFESSOR

text \<open>Kind of a primary-key field: an integer field (Django's default) or a character field.\<close>

datatype key_kind = IntegerKey | CharKey

record user =
  u_id :: nat
  u_role :: role
  u_full_name :: string
  u_dni :: pyval

text \<open>
  \<^verbatim>\<open>request.user\<close> is \<open>None\<close> for the anonymous user (whose
  \<^verbatim>\<open>is_authenticated\<close> is false); \<^verbatim>\<open>request.POST\<close> is a multi-valued
  dictionary, kept as the list of its (key, value) pairs.
\<close>

record request =
  req_method :: http_method
  req_user :: "user option"
  req_post :: "(string \<times> string) list"

text \<open>
  The messages the views queue.  Their texts are Spanish sentences; each constructor stands
  for one literal of the source, and \<open>level_of\<close> is the call that queued it
  (\<^verbatim>\<open>messages.success\<close>, \<^verbatim>\<open>messages.info\<close>, \<^verbatim>\<open>messages.error\<close>).
\<close>

datatype message =
    Msg_assignments_updated       \<comment> \<open>"Asignaciones actualizadas correctamente."\<close>
  | Msg_final_assignments_updated \<comment> \<open>"Asignaciones del final actualizadas correctamente."\<close>
  | Msg_no_assignment_changes     \<comment> \<open>"No hubo cambios en las asignaciones."\<close>
  | Msg_subject_inscribed         \<comment> \<open>"Inscripcion a la materia realizada."\<close>
  | Msg_already_inscribed         \<comment> \<open>"Ya estabas inscripto en esta materia."\<close>
  | Msg_only_if_regular           \<comment> \<open>"Solo puedes inscribirte si la materia esta regular."\<close>
  | Msg_final_inscribed           \<comment> \<open>"Inscripcion al final realizada."\<close>
  | Msg_subject_not_assigned      \<comment> \<open>"No puede editar notas de materias no asignadas."\<close>
  | Msg_student_not_inscribed     \<comment> \<open>"Solo puede calificar a estudiantes inscriptos en la materia."\<close>
  | Msg_old_profile_deleted       \<comment> \<open>"El perfil anterior ha sido eliminado debido al cambio de rol."\<close>
  | Msg_user_updated              \<comment> \<open>"Usuario actualizado correctamente."\<close>

datatype level = Success | Info | Error

fun level_of :: "message \<Rightarrow> level" where
  "level_of Msg_assignments_updated = Success"
| "level_of Msg_final_assignments_updated = Success"
| "level_of Msg_no_assignment_changes = Info"
| "level_of Msg_subject_inscribed = Success"
| "level_of Msg_already_inscribed = Info"
| "level_of Msg_only_if_regular = Error"
| "level_of Msg_final_inscribed = Success"
| "level_of Msg_subject_not_assigned = Error"
| "level_of Msg_student_not_inscribed = Error"
| "level_of Msg_old_profile_deleted = Info"
| "level_of Msg_user_updated = Success"

datatype response =
    Redirect string "string list"             \<comment> \<open>\<^verbatim>\<open>redirect(name, *args)\<close>\<close>
  | Render string                             \<comment> \<open>\<^verbatim>\<open>render(request, template, ...)\<close>\<close>
  | JsonResponse nat "(string \<times> pyval) list"  \<comment> \<open>HTTP status and the JSON object\<close>
  | Login_redirect                            \<comment> \<open>the access decorators turned the request away\<close>

type_synonym reply = "error + message list \<times> response"

subsection \<open>Python sets and \<^verbatim>\<open>QueryDict.getlist\<close>\<close>

text \<open>
  A Python set is kept as a duplicate-free list; its iteration order is not fixed by the
  language, so the theorems speak about \<open>set\<close> of such lists only.
\<close>

definition py_set :: "'a list \<Rightarrow> 'a list" where
  "py_set xs = remdups xs"

definition set_minus :: "'a list \<Rightarrow> 'a list \<Rightarrow> 'a list" where
  "set_minus xs ys = filter (\<lambda>x. x \<notin> set ys) xs"


subsection \<open>Lookups that raise\<close>

text \<open>
  \<^verbatim>\<open>get_object_or_404(Model, **filters)\<close> and \<^verbatim>\<open>Model.objects.get(**filters)\<close>,
  applied to the list of rows that match the filters.
\<close>

fun get_object_or_404 :: "'a list \<Rightarrow> error + 'a" where
  "get_object_or_404 [] = Inl Http404"
| "get_object_or_404 [x] = Inr x"
| "get_object_or_404 (x # y # zs) = Inl MultipleObjectsReturned"

subsection \<open>Transactions\<close>

text \<open>
  Outside a transaction every write is committed as it is made (autocommit), so a
  statement returns the state it reached even when it raises.  \<^verbatim>\<open>with
  transaction.atomic():\<close> commits when its body is left normally (also through
  \<^verbatim>\<open>return\<close>) and rolls back to the state at entry when an exception leaves it.
\<close>

definition atomic :: "('s \<Rightarrow> 's \<times> (error + 'a)) \<Rightarrow> 's \<Rightarrow> 's \<times> (error + 'a)" where
  "atomic body s =
     (case body s of
        (s', Inl e) \<Rightarrow> (s, Inl e)
      | (s', Inr a) \<Rightarrow> (s', Inr a))"

subsection \<open>Access decorators\<close>


definition is_student :: "user option \<Rightarrow> bool" where
  "is_student u = (case u of None \<Rightarrow> False | Some usr \<Rightarrow> u_role usr = STUDENT)"

definition is_professor :: "user option \<Rightarrow> bool" where
  "is_professor u = (case u of None \<Rightarrow> False | Some usr \<Rightarrow> u_role usr = PROFESSOR)"

text \<open>
  \<^verbatim>\<open>@login_required @user_passes_test(test)\<close>: the view body runs only for a user that
  passes; everybody else is sent to the login page and nothing is touched.
\<close>

definition guarded :: "(user option \<Rightarrow> bool) \<Rightarrow> request \<Rightarrow> 'd \<Rightarrow> (user \<Rightarrow> 'd \<times> reply) \<Rightarrow> 'd \<times> reply" where
  "guarded test req db body =
     (case req_user req of
        None \<Rightarrow> (db, Inr ([], Login_redirect))
      | Some usr \<Rightarrow> if test (Some usr) then body usr else (db, Inr ([], Login_redirect)))"

section \<open>The tables\<close>

text \<open>
  Rows carry the columns the views read.  \<^verbatim>\<open>academics/models.py\<close>,
  \<^verbatim>\<open>inscriptions/models.py\<close> and \<^verbatim>\<open>users/models.py\<close> are not part of the sources at
  hand, so the columns follow the uses in the views: subjects, careers and faculties are
  referred to by their code, final exams and grades by their integer key
  (\<^verbatim>\<open><int:pk>\<close> in \<^verbatim>\<open>users/urls.py\<close>), students and professors by a key of
  undeclared kind.  The type \<open>'s\<close> stands for the remaining columns of a grade (the
  scores a professor edits).
\<close>

record faculty =
  fac_code :: string
  fac_name :: string

record career =
  car_code :: string
  car_name :: string
  car_faculty :: string

record subject =
  sub_code :: string
  sub_career :: string

record final_exam =
  fe_pk :: nat
  fe_subject :: string

record date =
  d_year :: nat
  d_month :: nat
  d_day :: nat

record student =
  stu_pk :: pyval
  stu_student_id :: string
  stu_user :: nat
  stu_career :: string
  stu_enrollment_date :: date

record professor =
  prof_pk :: pyval
  prof_user :: nat

record administrator =
  adm_user :: nat

text \<open>
  The choices of \<^verbatim>\<open>Grade.status\<close> are declared in \<^verbatim>\<open>academics/models.py\<close>.  The views
  name one of them, \<^verbatim>\<open>Grade.StatusSubject.REGULAR\<close>; the others are kept apart by their
  name, and a status that is not set is \<open>None\<close>.
\<close>

datatype status = REGULAR | Other_status string

record 's grade =
  g_id :: nat
  g_student :: pyval
  g_subject :: string
  g_status :: "status option"
  g_scores :: 's

record subject_inscription =
  si_student :: pyval
  si_subject :: string

record final_exam_inscription =
  fei_student :: pyval
  fei_final_exam :: nat

text \<open>
  The two many-to-many relations (\<^verbatim>\<open>subject.professors\<close> / \<^verbatim>\<open>professor.subjects\<close>
  and \<^verbatim>\<open>final.professors\<close> / \<^verbatim>\<open>professor.final_exams\<close>) are their through tables:
  pairs of the entity's key and the professor's key.
\<close>

record 's db =
  users :: "user list"
  students :: "student list"
  professors :: "professor list"
  administrators :: "administrator list"
  faculties :: "faculty list"
  careers :: "career list"
  subjects :: "subject list"
  finals :: "final_exam list"
  grades :: "'s grade list"
  subject_inscriptions :: "subject_inscription list"
  final_inscriptions :: "final_exam_inscription list"
  subject_professors :: "(string \<times> pyval) list"
  final_professors :: "(nat \<times> pyval) list"

section \<open>Professor assignment\<close>

subsection \<open>What the ORM does with a posted key\<close>

text \<open>
  \<^verbatim>\<open>int(s)\<close> on the ASCII strings a form posts: surrounding white space is dropped, one
  sign is allowed, and the digits may be grouped by single underscores.
\<close>

definition py_isspace :: "char \<Rightarrow> bool" where
  "py_isspace c = (c \<in> set [CHR '' '', CHR 0x09, CHR 0x0A, CHR 0x0B, CHR 0x0C, CHR 0x0D])"

definition digit_val :: "char \<Rightarrow> nat option" where
  "digit_val c =
     (let n = (of_char c :: nat) in if 48 \<le> n \<and> n \<le> 57 then Some (n - 48) else None)"

fun py_digits :: "bool \<Rightarrow> nat \<Rightarrow> string \<Rightarrow> nat option" where
  "py_digits prev acc [] = (if prev then Some acc else None)"
| "py_digits prev acc (c # cs) =
     (if c = CHR ''_'' then (if prev \<and> cs \<noteq> [] then py_digits False acc cs else None)
      else case digit_val c of
             None \<Rightarrow> None
           | Some d \<Rightarrow> py_digits True (10 * acc + d) cs)"

definition py_strip :: "string \<Rightarrow> string" where
  "py_strip s = rev (dropWhile py_isspace (rev (dropWhile py_isspace s)))"

definition py_int :: "string \<Rightarrow> int option" where
  "py_int s =
     (case py_strip s of
        [] \<Rightarrow> None
      | c # cs \<Rightarrow>
          if c = CHR ''-'' then map_option (\<lambda>n. - int n) (py_digits False 0 cs)
          else if c = CHR ''+'' then map_option int (py_digits False 0 cs)
          else map_option int (py_digits False 0 (c # cs)))"

text \<open>\<^verbatim>\<open>str(i)\<close> for an integer.\<close>

fun str_nat :: "nat \<Rightarrow> string" where
  "str_nat n =
     (if n < 10 then [char_of (48 + n)] else str_nat (n div 10) @ [char_of (48 + n mod 10)])"

definition py_str_int :: "int \<Rightarrow> string" where
  "py_str_int i = (if i < 0 then CHR ''-'' # str_nat (nat (- i)) else str_nat (nat i))"

text \<open>
  \<^verbatim>\<open>Field.get_prep_value\<close>: an integer key field applies \<^verbatim>\<open>int\<close> to what it is
  given and raises \<^verbatim>\<open>ValueError\<close> when that fails; a character key field keeps a
  string and applies \<^verbatim>\<open>str\<close> to anything else.
\<close>

fun get_prep_value :: "key_kind \<Rightarrow> pyval \<Rightarrow> error + pyval" where
  "get_prep_value IntegerKey (PyInt i) = Inr (PyInt i)"
| "get_prep_value IntegerKey (PyStr s) =
     (case py_int s of None \<Rightarrow> Inl ValueError | Some i \<Rightarrow> Inr (PyInt i))"
| "get_prep_value CharKey (PyStr s) = Inr (PyStr s)"
| "get_prep_value CharKey (PyInt i) = Inr (PyStr (py_str_int i))"

fun prep_all :: "key_kind \<Rightarrow> pyval list \<Rightarrow> error + pyval list" where
  "prep_all k [] = Inr []"
| "prep_all k (v # vs) =
     (case get_prep_value k v of
        Inl e \<Rightarrow> Inl e
      | Inr w \<Rightarrow> (case prep_all k vs of Inl e \<Rightarrow> Inl e | Inr ws \<Rightarrow> Inr (w # ws)))"

subsection \<open>The related manager\<close>

text \<open>
  \<^verbatim>\<open>entity.professors.values_list("pk", flat=True)\<close>: the keys of the professors joined
  to the entity through the relation.
\<close>

definition related_pks :: "professor list \<Rightarrow> 'e \<Rightarrow> ('e \<times> pyval) list \<Rightarrow> pyval list" where
  "related_pks profs e thr = filter (\<lambda>k. (e, k) \<in> set thr) (map prof_pk profs)"

text \<open>
  \<^verbatim>\<open>entity.professors.add(*objs)\<close>: the keys are prepared for the key field, those
  already related are skipped, and a row is inserted for each of the others; a row that
  refers to no professor violates the foreign key.
\<close>

definition related_add ::
  "key_kind \<Rightarrow> professor list \<Rightarrow> 'e \<Rightarrow> pyval list \<Rightarrow> ('e \<times> pyval) list \<Rightarrow> ('e \<times> pyval) list \<times> (error + unit)" where
  "related_add kind profs e objs thr =
     (case prep_all kind objs of
        Inl err \<Rightarrow> (thr, Inl err)
      | Inr ids \<Rightarrow>
          let missing = filter (\<lambda>k. (e, k) \<notin> set thr) (remdups ids) in
          if set missing \<subseteq> set (map prof_pk profs)
          then (thr @ map (Pair e) missing, Inr ())
          else (thr, Inl IntegrityError))"

text \<open>\<^verbatim>\<open>entity.professors.remove(*objs)\<close>: the rows of the entity with one of the keys go.\<close>

definition related_remove ::
  "key_kind \<Rightarrow> 'e \<Rightarrow> pyval list \<Rightarrow> ('e \<times> pyval) list \<Rightarrow> ('e \<times> pyval) list \<times> (error + unit)" where
  "related_remove kind e objs thr =
     (case prep_all kind objs of
        Inl err \<Rightarrow> (thr, Inl err)
      | Inr ids \<Rightarrow> (filter (\<lambda>r. \<not> (fst r = e \<and> snd r \<in> set ids)) thr, Inr ()))"

subsection \<open>The two assignment views\<close>

text \<open>
  The POST branch of \<^verbatim>\<open>assign_subject_professors\<close> and of
  \<^verbatim>\<open>assign_final_professors\<close> is the same text over the two relations: the posted
  values (strings) and the current keys are put in sets, the two differences are taken,
  and additions and removals run in one transaction.  The result tells whether the
  branch that writes was taken.
\<close>

definition sync_assignments ::
  "key_kind \<Rightarrow> professor list \<Rightarrow> 'e \<Rightarrow> string list \<Rightarrow> ('e \<times> pyval) list \<Rightarrow> ('e \<times> pyval) list \<times> (error + bool)" where
  "sync_assignments kind profs e posted thr =
     (let selected_ids = py_set (map PyStr posted);
          current_ids = py_set (related_pks profs e thr);
          to_add = set_minus selected_ids current_ids;
          to_remove = set_minus current_ids selected_ids
      in if to_add \<noteq> [] \<or> to_remove \<noteq> [] then
           atomic (\<lambda>t0.
             case (if to_add \<noteq> [] then related_add kind profs e to_add t0 else (t0, Inr ())) of
               (t1, Inl err) \<Rightarrow> (t1, Inl err)
             | (t1, Inr _) \<Rightarrow>
                 (case (if to_remove \<noteq> [] then related_remove kind e to_remove t1 else (t1, Inr ())) of
                    (t2, Inl err) \<Rightarrow> (t2, Inl err)
                  | (t2, Inr _) \<Rightarrow> (t2, Inr True))) thr
         else (thr, Inr False))"



section \<open>Student views\<close>

text \<open>
  \<^verbatim>\<open>request.user.student\<close> and \<^verbatim>\<open>request.user.professor\<close>: the reverse side of a
  one-to-one field, applied to the rows that point to the user.
\<close>

fun related_object :: "'a list \<Rightarrow> error + 'a" where
  "related_object [] = Inl RelatedObjectDoesNotExist"
| "related_object [x] = Inr x"
| "related_object (x # y # zs) = Inl MultipleObjectsReturned"

definition user_student :: "'s db \<Rightarrow> user \<Rightarrow> error + student" where
  "user_student db usr = related_object (filter (\<lambda>s. stu_user s = u_id usr) (students db))"

definition user_professor :: "'s db \<Rightarrow> user \<Rightarrow> error + professor" where
  "user_professor db usr = related_object (filter (\<lambda>p. prof_user p = u_id usr) (professors db))"

text \<open>
  \<^verbatim>\<open>Model.objects.get_or_create(**kwargs)\<close> on a table: the rows that match are looked
  up; none inserts the new row, one is returned, several raise.
\<close>

definition get_or_create :: "('a \<Rightarrow> bool) \<Rightarrow> 'a \<Rightarrow> 'a list \<Rightarrow> 'a list \<times> (error + 'a \<times> bool)" where
  "get_or_create P new rows =
     (case filter P rows of
        [] \<Rightarrow> (rows @ [new], Inr (new, True))
      | [x] \<Rightarrow> (rows, Inr (x, False))
      | x # y # zs \<Rightarrow> (rows, Inl MultipleObjectsReturned))"

text \<open>
  \<^verbatim>\<open>Grade(student_id=sid, subject=subject)\<close> with the key the database gives it on
  insertion.  The defaults of the other columns are declared with the model, outside these
  sources: \<open>dflt\<close> is the default status together with the default of the remaining
  columns.
\<close>

definition next_grade_id :: "'s grade list \<Rightarrow> nat" where
  "next_grade_id gs = Suc (fold max (map g_id gs) 0)"

definition Grade :: "status option \<times> 's \<Rightarrow> nat \<Rightarrow> pyval \<Rightarrow> string \<Rightarrow> 's grade" where
  "Grade dflt i sid sc = \<lparr>g_id = i, g_student = sid, g_subject = sc, g_status = fst dflt, g_scores = snd dflt\<rparr>"

definition SubjectInscription :: "pyval \<Rightarrow> string \<Rightarrow> subject_inscription" where
  "SubjectInscription sid sc = \<lparr>si_student = sid, si_subject = sc\<rparr>"

definition FinalExamInscription :: "pyval \<Rightarrow> nat \<Rightarrow> final_exam_inscription" where
  "FinalExamInscription sid fid = \<lparr>fei_student = sid, fei_final_exam = fid\<rparr>"

definition subject_inscribe :: "status option \<times> 's \<Rightarrow> 's db \<Rightarrow> request \<Rightarrow> string \<Rightarrow> 's db \<times> reply" where
  "subject_inscribe dflt db req subject_code =
     guarded is_student req db (\<lambda>usr.
       case user_student db usr of
         Inl err \<Rightarrow> (db, Inl err)
       | Inr student \<Rightarrow>
          (case get_object_or_404
                  (filter (\<lambda>s. sub_code s = subject_code \<and> sub_career s = stu_career student)
                     (subjects db)) of
             Inl err \<Rightarrow> (db, Inl err)
           | Inr subject \<Rightarrow>
               if req_method req = POST then
                 (case get_or_create
                         (\<lambda>i. si_student i = stu_pk student \<and> si_subject i = sub_code subject)
                         (SubjectInscription (stu_pk student) (sub_code subject))
                         (subject_inscriptions db) of
                    (ins, Inl err) \<Rightarrow> (db\<lparr>subject_inscriptions := ins\<rparr>, Inl err)
                  | (ins, Inr (obj, created)) \<Rightarrow>
                      (case get_or_create
                              (\<lambda>g. g_student g = stu_pk student \<and> g_subject g = sub_code subject)
                              (Grade dflt (next_grade_id (grades db)) (stu_pk student) (sub_code subject))
                              (grades db) of
                         (gs, Inl err) \<Rightarrow> (db\<lparr>subject_inscriptions := ins, grades := gs\<rparr>, Inl err)
                       | (gs, Inr _) \<Rightarrow>
                           (db\<lparr>subject_inscriptions := ins, grades := gs\<rparr>,
                            Inr ([if created then Msg_subject_inscribed else Msg_already_inscribed],
                                 Redirect ''users:student-dashboard'' []))))
               else (db, Inr ([], Render ''users/inscribe_confirm.html''))))"

text \<open>
  \<^verbatim>\<open>Grade.objects.filter(student=..., subject=...).order_by("-id").first()\<close>: the
  matching grade with the greatest key, if any.
\<close>

definition latest_grade :: "pyval \<Rightarrow> string \<Rightarrow> 's grade list \<Rightarrow> 's grade option" where
  "latest_grade sid sc gs =
     (case filter (\<lambda>g. g_student g = sid \<and> g_subject g = sc) gs of
        [] \<Rightarrow> None
      | g # rest \<Rightarrow> Some (fold (\<lambda>a b. if g_id b < g_id a then a else b) rest g))"

definition final_exam_inscribe :: "'s db \<Rightarrow> request \<Rightarrow> nat \<Rightarrow> 's db \<times> reply" where
  "final_exam_inscribe db req final_exam_id =
     guarded is_student req db (\<lambda>usr.
       case user_student db usr of
         Inl err \<Rightarrow> (db, Inl err)
       | Inr student \<Rightarrow>
          (case get_object_or_404
                  (filter (\<lambda>f. fe_pk f = final_exam_id \<and>
                               list_ex (\<lambda>s. sub_code s = fe_subject f \<and> sub_career s = stu_career student)
                                 (subjects db))
                     (finals db)) of
             Inl err \<Rightarrow> (db, Inl err)
           | Inr final_exam \<Rightarrow>
              (case latest_grade (stu_pk student) (fe_subject final_exam) (grades db) of
                 None \<Rightarrow> (db, Inr ([Msg_only_if_regular], Redirect ''users:student-dashboard'' []))
               | Some grade \<Rightarrow>
                   if g_status grade \<noteq> Some REGULAR then
                     (db, Inr ([Msg_only_if_regular], Redirect ''users:student-dashboard'' []))
                   else if req_method req = POST then
                     (case get_or_create
                             (\<lambda>i. fei_student i = stu_pk student \<and> fei_final_exam i = fe_pk final_exam)
                             (FinalExamInscription (stu_pk student) (fe_pk final_exam))
                             (final_inscriptions db) of
                        (ins, Inl err) \<Rightarrow> (db\<lparr>final_inscriptions := ins\<rparr>, Inl err)
                      | (ins, Inr _) \<Rightarrow>
                          (db\<lparr>final_inscriptions := ins\<rparr>,
                           Inr ([Msg_final_inscribed], Redirect ''users:student-dashboard'' [])))
                   else (db, Inr ([], Render ''users/inscribe_confirm.html'')))))"

section \<open>Professor views\<close>

text \<open>
  Lines 540 to 544 of \<^verbatim>\<open>grade_list\<close>: the students inscribed in the subject without a
  grade get one.  The second component lists the calls of \<^verbatim>\<open>bulk_create\<close> with the rows
  each one wrote.
\<close>

definition bulk_create :: "'s grade list \<Rightarrow> 's grade list \<Rightarrow> 's grade list" where
  "bulk_create new gs = gs @ new"

definition backfill_missing_grades ::
  "status option \<times> 's \<Rightarrow> string \<Rightarrow> subject_inscription list \<Rightarrow> 's grade list \<Rightarrow> 's grade list \<times> 's grade list list" where
  "backfill_missing_grades dflt sc ins gs =
     (let enrolled_student_ids = py_set (map si_student (filter (\<lambda>i. si_subject i = sc) ins));
          existing_grade_student_ids = py_set (map g_student (filter (\<lambda>g. g_subject g = sc) gs));
          missing_ids = set_minus enrolled_student_ids existing_grade_student_ids
      in if missing_ids \<noteq> [] then
           (let new = map (\<lambda>(k, sid). Grade dflt (next_grade_id gs + k) sid sc)
                        (zip [0 ..< length missing_ids] missing_ids)
            in (bulk_create new gs, [new]))
         else (gs, []))"

definition grade_list :: "status option \<times> 's \<Rightarrow> 's db \<Rightarrow> request \<Rightarrow> string \<Rightarrow> 's db \<times> reply" where
  "grade_list dflt db req subject_code =
     guarded is_professor req db (\<lambda>usr.
       case user_professor db usr of
         Inl err \<Rightarrow> (db, Inl err)
       | Inr professor \<Rightarrow>
          (case get_object_or_404
                  (filter (\<lambda>s. sub_code s = subject_code \<and>
                               (sub_code s, prof_pk professor) \<in> set (subject_professors db))
                     (subjects db)) of
             Inl err \<Rightarrow> (db, Inl err)
           | Inr subject \<Rightarrow>
               (db\<lparr>grades := fst (backfill_missing_grades dflt (sub_code subject)
                                    (subject_inscriptions db) (grades db))\<rparr>,
                Inr ([], Render ''users/grade_list.html''))))"

text \<open>
  \<^verbatim>\<open>GradeForm(request.POST, instance=grade)\<close> is declared in
  \<^verbatim>\<open>academics/forms.py\<close> and \<^verbatim>\<open>Grade.update_status\<close> in
  \<^verbatim>\<open>academics/models.py\<close>; neither is part of the sources at hand, so both are parameters
  of \<^verbatim>\<open>grade_edit\<close>.  A bound form tells whether it is valid, which fields changed and
  what \<^verbatim>\<open>save()\<close> writes to the instance; \<^verbatim>\<open>update_status\<close> may do to the database
  whatever the model decides.
\<close>

record 's grade_form =
  gf_is_valid :: bool
  gf_changed_data :: "string list"
  gf_status :: "status option"
  gf_scores :: 's

definition form_save :: "'s grade_form \<Rightarrow> 's grade \<Rightarrow> 's grade" where
  "form_save form grade = grade\<lparr>g_status := gf_status form, g_scores := gf_scores form\<rparr>"

definition save_grade :: "'s grade \<Rightarrow> 's db \<Rightarrow> 's db" where
  "save_grade saved db = db\<lparr>grades := map (\<lambda>g. if g_id g = g_id saved then saved else g) (grades db)\<rparr>"

text \<open>
  \<^verbatim>\<open>professor.subjects.all()\<close> and
  \<^verbatim>\<open>SubjectInscription.objects.filter(student=..., subject=...).exists()\<close>.
\<close>

definition professor_subjects :: "'s db \<Rightarrow> professor \<Rightarrow> subject list" where
  "professor_subjects db professor =
     filter (\<lambda>s. (sub_code s, prof_pk professor) \<in> set (subject_professors db)) (subjects db)"

definition inscription_exists :: "'s db \<Rightarrow> pyval \<Rightarrow> string \<Rightarrow> bool" where
  "inscription_exists db sid sc =
     list_ex (\<lambda>i. si_student i = sid \<and> si_subject i = sc) (subject_inscriptions db)"

definition grade_edit ::
  "(request \<Rightarrow> 's grade \<Rightarrow> 's grade_form) \<Rightarrow> ('s grade \<Rightarrow> 's db \<Rightarrow> 's db) \<Rightarrow>
     's db \<Rightarrow> request \<Rightarrow> nat \<Rightarrow> 's db \<times> reply" where
  "grade_edit GradeForm update_status db req pk =
     guarded is_professor req db (\<lambda>usr.
       case get_object_or_404 (filter (\<lambda>g. g_id g = pk) (grades db)) of
         Inl err \<Rightarrow> (db, Inl err)
       | Inr grade \<Rightarrow>
          (case user_professor db usr of
             Inl err \<Rightarrow> (db, Inl err)
           | Inr professor \<Rightarrow>
               if g_subject grade \<notin> set (map sub_code (professor_subjects db professor))
               then (db, Inr ([Msg_subject_not_assigned], Redirect ''users:professor-dashboard'' []))
               else if \<not> inscription_exists db (g_student grade) (g_subject grade)
               then (db, Inr ([Msg_student_not_inscribed], Redirect ''users:grade-list'' [g_subject grade]))
               else if req_method req = POST then
                 (let form = GradeForm req grade in
                  if gf_is_valid form then
                    (let status_was_changed = (''status'' \<in> set (gf_changed_data form));
                         saved = form_save form grade;
                         db1 = save_grade saved db
                     in ((if \<not> status_was_changed then update_status saved db1 else db1),
                         Inr ([], Redirect ''users:grade-list'' [g_subject grade])))
                  else (db, Inr ([], Render ''users/grade_form.html'')))
               else (db, Inr ([], Render ''users/grade_form.html''))))"

section \<open>Updating a user and its profile\<close>

text \<open>
  \<^verbatim>\<open>UserUpdateView.form_valid\<close> runs once the \<^verbatim>\<open>UserForm\<close> is valid; its cleaned
  data are the columns \<^verbatim>\<open>form.save()\<close> writes.  The three profile forms are declared
  in \<^verbatim>\<open>users/forms.py\<close>, which is not part of the sources at hand: each is a parameter
  that, from the request and the database at the moment \<^verbatim>\<open>is_valid()\<close> runs, gives
  \<open>None\<close> for an invalid form and otherwise the instance \<^verbatim>\<open>save(commit=False)\<close>
  builds (its user is set by the view).
\<close>

record user_form =
  uf_role :: role
  uf_full_name :: string
  uf_dni :: pyval

record 's profile_forms =
  StudentProfileForm :: "request \<Rightarrow> 's db \<Rightarrow> student option"
  ProfessorProfileForm :: "request \<Rightarrow> 's db \<Rightarrow> professor option"
  AdministratorProfileForm :: "request \<Rightarrow> 's db \<Rightarrow> administrator option"

text \<open>
  \<^verbatim>\<open>profile.save()\<close>: a row with the instance's key is overwritten, otherwise the row
  is inserted; two profiles of one kind for one user violate the one-to-one field.
\<close>

definition save_student :: "student \<Rightarrow> 's db \<Rightarrow> 's db \<times> (error + unit)" where
  "save_student p db =
     (let rows = (if list_ex (\<lambda>r. stu_pk r = stu_pk p) (students db)
                  then map (\<lambda>r. if stu_pk r = stu_pk p then p else r) (students db)
                  else students db @ [p])
      in if length (filter (\<lambda>r. stu_user r = stu_user p) rows) \<le> 1
         then (db\<lparr>students := rows\<rparr>, Inr ())
         else (db, Inl IntegrityError))"

definition save_professor :: "professor \<Rightarrow> 's db \<Rightarrow> 's db \<times> (error + unit)" where
  "save_professor p db =
     (let rows = (if list_ex (\<lambda>r. prof_pk r = prof_pk p) (professors db)
                  then map (\<lambda>r. if prof_pk r = prof_pk p then p else r) (professors db)
                  else professors db @ [p])
      in if length (filter (\<lambda>r. prof_user r = prof_user p) rows) \<le> 1
         then (db\<lparr>professors := rows\<rparr>, Inr ())
         else (db, Inl IntegrityError))"

definition save_administrator :: "administrator \<Rightarrow> 's db \<Rightarrow> 's db \<times> (error + unit)" where
  "save_administrator p db =
     (if list_ex (\<lambda>r. adm_user r = adm_user p) (administrators db)
      then (db, Inl IntegrityError)
      else (db\<lparr>administrators := administrators db @ [p]\<rparr>, Inr ()))"

text \<open>
  The three \<^verbatim>\<open>if getattr(user, ..., None): user. ... .delete()\<close> statements.  What the
  deletion does to rows that refer to the profile is the foreign keys' business and is
  not modelled.
\<close>

definition delete_profiles :: "nat \<Rightarrow> 's db \<Rightarrow> 's db" where
  "delete_profiles uid db =
     db\<lparr>students := filter (\<lambda>r. stu_user r \<noteq> uid) (students db),
        professors := filter (\<lambda>r. prof_user r \<noteq> uid) (professors db),
        administrators := filter (\<lambda>r. adm_user r \<noteq> uid) (administrators db)\<rparr>"

definition save_user :: "user_form \<Rightarrow> user \<Rightarrow> 's db \<Rightarrow> 's db" where
  "save_user form usr db =
     db\<lparr>users := map (\<lambda>u. if u_id u = u_id usr
                           then usr\<lparr>u_role := uf_role form, u_full_name := uf_full_name form,
                                    u_dni := uf_dni form\<rparr>
                           else u) (users db)\<rparr>"

text \<open>
  The body of the \<^verbatim>\<open>with transaction.atomic():\<close> block.  It is left either by
  \<^verbatim>\<open>return self.form_invalid(form)\<close> (the value \<open>Some\<close> of that response) or at
  its end (\<open>None\<close>); an exception of \<^verbatim>\<open>profile.save()\<close> leaves it as an error.
\<close>

definition update_block ::
  "'s profile_forms \<Rightarrow> request \<Rightarrow> user_form \<Rightarrow> user \<Rightarrow> 's db \<Rightarrow> 's db \<times> (error + response option)" where
  "update_block forms req form usr db0 =
     (let db1 = save_user form usr db0;
          finish = (\<lambda>r. case r of (d, Inl err) \<Rightarrow> (d, Inl err) | (d, Inr _) \<Rightarrow> (d, Inr None))
      in case uf_role form of
           STUDENT \<Rightarrow>
             (case StudentProfileForm forms req db1 of
                None \<Rightarrow> (db1, Inr (Some (Render ''users/user_form.html'')))
              | Some profile \<Rightarrow> finish (save_student (profile\<lparr>stu_user := u_id usr\<rparr>) db1))
         | PROFESSOR \<Rightarrow>
             (case ProfessorProfileForm forms req db1 of
                None \<Rightarrow> (db1, Inr (Some (Render ''users/user_form.html'')))
              | Some profile \<Rightarrow> finish (save_professor (profile\<lparr>prof_user := u_id usr\<rparr>) db1))
         | ADMIN \<Rightarrow>
             (case AdministratorProfileForm forms req db1 of
                None \<Rightarrow> (db1, Inr (Some (Render ''users/user_form.html'')))
              | Some profile \<Rightarrow> finish (save_administrator (profile\<lparr>adm_user := u_id usr\<rparr>) db1)))"

definition form_valid :: "'s profile_forms \<Rightarrow> 's db \<Rightarrow> request \<Rightarrow> nat \<Rightarrow> user_form \<Rightarrow> 's db \<times> reply" where
  "form_valid forms db req pk form =
     (case get_object_or_404 (filter (\<lambda>u. u_id u = pk) (users db)) of
        Inl err \<Rightarrow> (db, Inl err)
      | Inr usr \<Rightarrow>
          (let role = uf_role form;
               db1 = (if role \<noteq> u_role usr then delete_profiles (u_id usr) db else db);
               msgs = (if role \<noteq> u_role usr then [Msg_old_profile_deleted] else [])
           in case atomic (update_block forms req form usr) db1 of
                (db2, Inl err) \<Rightarrow> (db2, Inl err)
              | (db2, Inr (Some resp)) \<Rightarrow> (db2, Inr (msgs, resp))
              | (db2, Inr None) \<Rightarrow>
                  (db2, Inr (msgs @ [Msg_user_updated], Redirect ''users:user-list'' []))))"

section \<open>The student file\<close>






section \<open>Notions the statements use\<close>



definition current_ids :: "professor list \<Rightarrow> 'e \<Rightarrow> ('e \<times> pyval) list \<Rightarrow> pyval set" where
  "current_ids profs e thr = set (related_pks profs e thr)"

section \<open>Example data\<close>

definition ex_admin :: user where
  "ex_admin = \<lparr>u_id = 1, u_role = ADMIN, u_full_name = ''Ana Admin'', u_dni = PyStr ''20111222''\<rparr>"

definition ex_student_user :: user where
  "ex_student_user = \<lparr>u_id = 2, u_role = STUDENT, u_full_name = ''Luis Sosa'', u_dni = PyStr ''40111222''\<rparr>"

definition ex_professor_user :: user where
  "ex_professor_user = \<lparr>u_id = 3, u_role = PROFESSOR, u_full_name = ''Eva Paz'', u_dni = PyStr ''30111222''\<rparr>"

definition ex_student :: student where
  "ex_student = \<lparr>stu_pk = PyStr ''L100'', stu_student_id = ''L100'', stu_user = 2, stu_career = ''ISI'',
                  stu_enrollment_date = \<lparr>d_year = 2023, d_month = 3, d_day = 1\<rparr>\<rparr>"

definition ex_db :: "int option db" where
  "ex_db = \<lparr>users = [ex_admin, ex_student_user, ex_professor_user],
            students = [ex_student],
            professors = [\<lparr>prof_pk = PyStr ''A'', prof_user = 3\<rparr>, \<lparr>prof_pk = PyStr ''B'', prof_user = 4\<rparr>,
                          \<lparr>prof_pk = PyStr ''C'', prof_user = 5\<rparr>],
            administrators = [\<lparr>adm_user = 1\<rparr>],
            faculties = [\<lparr>fac_code = ''FI'', fac_name = ''Ingenieria''\<rparr>],
            careers = [\<lparr>car_code = ''ISI'', car_name = ''Sistemas'', car_faculty = ''FI''\<rparr>],
            subjects = [\<lparr>sub_code = ''MAT1'', sub_career = ''ISI''\<rparr>, \<lparr>sub_code = ''DER1'', sub_career = ''ABG''\<rparr>],
            finals = [\<lparr>fe_pk = 1, fe_subject = ''MAT1''\<rparr>, \<lparr>fe_pk = 2, fe_subject = ''DER1''\<rparr>],
            grades = [],
            subject_inscriptions = [],
            final_inscriptions = [],
            subject_professors = [(''MAT1'', PyStr ''A''), (''MAT1'', PyStr ''B'')],
            final_professors = [(1, PyStr ''A''), (1, PyStr ''B'')]\<rparr>"


text \<open>The same assignment data with integer keys, as Django gives a model by default.\<close>

definition ex_int_professors :: "professor list" where
  "ex_int_professors = [\<lparr>prof_pk = PyInt 1, prof_user = 3\<rparr>, \<lparr>prof_pk = PyInt 2, prof_user = 4\<rparr>,
                        \<lparr>prof_pk = PyInt 3, prof_user = 5\<rparr>]"

definition ex_get_request :: request where
  "ex_get_request = \<lparr>req_method = GET, req_user = Some ex_student_user, req_post = []\<rparr>"

definition ex_grade :: "int option grade" where
  "ex_grade = \<lparr>g_id = 7, g_student = PyStr ''L100'', g_subject = ''MAT1'', g_status = None, g_scores = None\<rparr>"

definition ex_grade_db :: "int option db" where
  "ex_grade_db = ex_db\<lparr>grades := [ex_grade],
                       subject_inscriptions := [SubjectInscription (PyStr ''L100'') ''MAT1'']\<rparr>"

definition ex_grade_form :: "request \<Rightarrow> int option grade \<Rightarrow> int option grade_form" where
  "ex_grade_form req g =
     \<lparr>gf_is_valid = True, gf_changed_data = map fst (req_post req),
      gf_status = (if ''status'' \<in> set (map fst (req_post req)) then Some REGULAR else g_status g),
      gf_scores = Some 8\<rparr>"

definition ex_update_status :: "int option grade \<Rightarrow> int option db \<Rightarrow> int option db" where
  "ex_update_status g db =
     save_grade (g\<lparr>g_status := (case g_scores g of None \<Rightarrow> None
                                  | Some n \<Rightarrow> Some (if 6 \<le> n then REGULAR else Other_status ''LIBRE''))\<rparr>) db"

definition ex_edit_request :: "(string \<times> string) list \<Rightarrow> request" where
  "ex_edit_request post = \<lparr>req_method = POST, req_user = Some ex_professor_user, req_post = post\<rparr>"

text \<open>
  A subject belongs to a student's career when a row with that code and the student's
  career exists; a final exam does when its subject does.
\<close>

definition subject_in_career :: "'s db \<Rightarrow> student \<Rightarrow> string \<Rightarrow> bool" where
  "subject_in_career db student code =
     list_ex (\<lambda>s. sub_code s = code \<and> sub_career s = stu_career student) (subjects db)"

definition final_in_career :: "'s db \<Rightarrow> student \<Rightarrow> nat \<Rightarrow> bool" where
  "final_in_career db student fid =
     list_ex (\<lambda>f. fe_pk f = fid \<and> subject_in_career db student (fe_subject f)) (finals db)"

definition ex_post_request :: request where
  "ex_post_request = \<lparr>req_method = POST, req_user = Some ex_student_user, req_post = []\<rparr>"

definition ex_regular_db :: "int option db" where
  "ex_regular_db = ex_grade_db\<lparr>grades := [ex_grade\<lparr>g_status := Some REGULAR\<rparr>]\<rparr>"

text \<open>
  The rows of a student for a subject or a final exam: the inscriptions and the grades the
  two \<^verbatim>\<open>get_or_create\<close> calls look up.
\<close>

definition inscriptions_of :: "'s db \<Rightarrow> pyval \<Rightarrow> string \<Rightarrow> subject_inscription list" where
  "inscriptions_of db sid sc = filter (\<lambda>i. si_student i = sid \<and> si_subject i = sc) (subject_inscriptions db)"

definition grades_of :: "'s db \<Rightarrow> pyval \<Rightarrow> string \<Rightarrow> 's grade list" where
  "grades_of db sid sc = filter (\<lambda>g. g_student g = sid \<and> g_subject g = sc) (grades db)"

definition final_inscriptions_of :: "'s db \<Rightarrow> pyval \<Rightarrow> nat \<Rightarrow> final_exam_inscription list" where
  "final_inscriptions_of db sid fid =
     filter (\<lambda>i. fei_student i = sid \<and> fei_final_exam i = fid) (final_inscriptions db)"

text \<open>
  The students inscribed in a subject and the students with a grade for it, and a database
  with three inscriptions for one subject and a grade for the first of them only.
\<close>

definition enrolled_ids :: "string \<Rightarrow> subject_inscription list \<Rightarrow> pyval set" where
  "enrolled_ids sc ins = si_student ` {i \<in> set ins. si_subject i = sc}"

definition graded_ids :: "string \<Rightarrow> 's grade list \<Rightarrow> pyval set" where
  "graded_ids sc gs = g_student ` {g \<in> set gs. g_subject g = sc}"

definition ex_backfill_db :: "int option db" where
  "ex_backfill_db = ex_grade_db\<lparr>subject_inscriptions :=
      [SubjectInscription (PyStr ''L100'') ''MAT1'', SubjectInscription (PyStr ''L200'') ''MAT1'',
       SubjectInscription (PyStr ''L300'') ''MAT1'', SubjectInscription (PyStr ''L400'') ''DER1'']\<rparr>"

text \<open>
  The profile form of a role does not validate on a database; and a request that turns the
  student of the example data into a professor with a professor form that does not
  validate.
\<close>

definition profile_form_invalid :: "'s profile_forms \<Rightarrow> request \<Rightarrow> role \<Rightarrow> 's db \<Rightarrow> bool" where
  "profile_form_invalid forms req r db =
     (case r of
        STUDENT \<Rightarrow> StudentProfileForm forms req db = None
      | PROFESSOR \<Rightarrow> ProfessorProfileForm forms req db = None
      | ADMIN \<Rightarrow> AdministratorProfileForm forms req db = None)"

definition ex_forms :: "int option profile_forms" where
  "ex_forms = \<lparr>StudentProfileForm = (\<lambda>req db. None),
               ProfessorProfileForm = (\<lambda>req db. None),
               AdministratorProfileForm = (\<lambda>req db. None)\<rparr>"

definition ex_user_form :: user_form where
  "ex_user_form = \<lparr>uf_role = PROFESSOR, uf_full_name = ''Luis Sosa'', uf_dni = PyStr ''40111222''\<rparr>"

definition ex_update_request :: request where
  "ex_update_request = \<lparr>req_method = POST, req_user = Some ex_admin, req_post = [(''role'', ''PROFESSOR'')]\<rparr>"




section \<open>Properties\<close>

subsection \<open>Professor assignment\<close>


lemma set_set_minus: "set (set_minus xs ys) = set xs - set ys"
  by (auto simp: set_minus_def)

lemma set_py_set: "set (py_set xs) = set xs"
  by (simp add: py_set_def)




lemma filter_single: "filter P xs = [x] \<Longrightarrow> P x"
proof -
  assume "filter P xs = [x]"
  then have "x \<in> set (filter P xs)" by simp
  then show "P x" by simp
qed



text \<open>
  With integer keys the posted strings never equal the stored keys: every posted value is
  taken as an addition and every current key as a removal.  For current keys 1, 2 and the
  posted values "2", "3" the relation ends with key 3 only, and posting "2", "3" over the
  keys 2, 3 empties it and reports a change.
\<close>

lemma sync_integer_keys_example:
  "sync_assignments IntegerKey ex_int_professors ''MAT1'' [''2'', ''3'']
      [(''MAT1'', PyInt 1), (''MAT1'', PyInt 2)] = ([(''MAT1'', PyInt 3)], Inr True)
   \<and> sync_assignments IntegerKey ex_int_professors ''MAT1'' [''2'', ''3'']
      [(''MAT1'', PyInt 2), (''MAT1'', PyInt 3)] = ([], Inr True)"
  by (simp add: sync_assignments_def ex_int_professors_def py_set_def set_minus_def related_pks_def
      atomic_def related_add_def related_remove_def py_int_def py_strip_def py_isspace_def
      digit_val_def)













subsection \<open>Inscription views\<close>

text \<open>
  C10.  A request to the subject-inscription or final-exam-inscription view whose method is
  not POST (a GET in particular) leaves the database as it was: it answers with the
  confirmation page, with the login redirect of the access decorators or, for finals, with
  the redirect that carries the "only if regular" message.
\<close>

theorem get_never_mutates:
  assumes "req_method req \<noteq> POST"
  shows "fst (subject_inscribe dflt db req subject_code) = db
       \<and> fst (final_exam_inscribe db req final_exam_id) = db
       \<and> (\<forall>msgs resp. snd (subject_inscribe dflt db req subject_code) = Inr (msgs, resp) \<longrightarrow>
             msgs = [] \<and> (resp = Login_redirect \<or> resp = Render ''users/inscribe_confirm.html''))
       \<and> (\<forall>msgs resp. snd (final_exam_inscribe db req final_exam_id) = Inr (msgs, resp) \<longrightarrow>
             (msgs = [] \<and> (resp = Login_redirect \<or> resp = Render ''users/inscribe_confirm.html''))
             \<or> (msgs = [Msg_only_if_regular] \<and> resp = Redirect ''users:student-dashboard'' []))"
proof (intro conjI)
  show "fst (subject_inscribe dflt db req subject_code) = db"
    using assms by (simp add: subject_inscribe_def guarded_def split: option.splits sum.splits)
  show "fst (final_exam_inscribe db req final_exam_id) = db"
    using assms by (simp add: final_exam_inscribe_def guarded_def split: option.splits sum.splits)
  show "\<forall>msgs resp. snd (subject_inscribe dflt db req subject_code) = Inr (msgs, resp) \<longrightarrow>
             msgs = [] \<and> (resp = Login_redirect \<or> resp = Render ''users/inscribe_confirm.html'')"
    using assms by (auto simp: subject_inscribe_def guarded_def split: option.splits sum.splits if_splits)
  show "\<forall>msgs resp. snd (final_exam_inscribe db req final_exam_id) = Inr (msgs, resp) \<longrightarrow>
             (msgs = [] \<and> (resp = Login_redirect \<or> resp = Render ''users/inscribe_confirm.html''))
             \<or> (msgs = [Msg_only_if_regular] \<and> resp = Redirect ''users:student-dashboard'' [])"
    using assms by (auto simp: final_exam_inscribe_def guarded_def split: option.splits sum.splits if_splits)
qed

theorem get_never_mutates_witness:
  "req_method ex_get_request \<noteq> POST
   \<and> subject_inscribe (None, None) ex_db ex_get_request ''MAT1'' = (ex_db, Inr ([], Render ''users/inscribe_confirm.html''))
   \<and> fst (final_exam_inscribe ex_db ex_get_request 1) = ex_db"
proof -
  have h: "req_method ex_get_request \<noteq> POST" by (simp add: ex_get_request_def)
  note c = get_never_mutates[OF h, of "(None, None)" ex_db "''MAT1''" 1]
  have s: "snd (subject_inscribe (None, None) ex_db ex_get_request ''MAT1'') = Inr ([], Render ''users/inscribe_confirm.html'')"
    by (simp add: subject_inscribe_def guarded_def ex_get_request_def ex_student_user_def is_student_def
        user_student_def ex_db_def ex_student_def)
  have "subject_inscribe (None, None) ex_db ex_get_request ''MAT1'' = (ex_db, Inr ([], Render ''users/inscribe_confirm.html''))"
    using c[THEN conjunct1] s by (simp add: prod_eq_iff)
  then show ?thesis using h c[THEN conjunct2, THEN conjunct1] by simp
qed

subsection \<open>Editing a grade\<close>

text \<open>
  C9.  When the grade's subject is not among the subjects of the requesting professor, or
  the grade's student has no inscription for that subject, \<^verbatim>\<open>grade_edit\<close> answers with
  a redirect and returns the database as it was, whatever the method, the form and
  \<^verbatim>\<open>update_status\<close> are: nothing is saved and no status is recomputed.
\<close>

theorem grade_edit_rejected:
  assumes usr: "req_user req = Some usr" "is_professor (Some usr)"
    and grade: "filter (\<lambda>g. g_id g = pk) (grades db) = [grade]"
    and prof: "user_professor db usr = Inr professor"
    and rej: "g_subject grade \<notin> set (map sub_code (professor_subjects db professor))
              \<or> \<not> inscription_exists db (g_student grade) (g_subject grade)"
  shows "grade_edit GradeForm update_status db req pk =
           (db, Inr (if g_subject grade \<notin> set (map sub_code (professor_subjects db professor))
                     then ([Msg_subject_not_assigned], Redirect ''users:professor-dashboard'' [])
                     else ([Msg_student_not_inscribed], Redirect ''users:grade-list'' [g_subject grade])))"
  using rej by (auto simp: grade_edit_def guarded_def usr grade prof)

theorem grade_edit_rejected_witness:
  "grade_edit ex_grade_form ex_update_status (ex_grade_db\<lparr>subject_inscriptions := []\<rparr>)
       (ex_edit_request [(''status'', ''REGULAR'')]) 7
     = (ex_grade_db\<lparr>subject_inscriptions := []\<rparr>,
        Inr ([Msg_student_not_inscribed], Redirect ''users:grade-list'' [''MAT1'']))
   \<and> grade_edit ex_grade_form ex_update_status (ex_grade_db\<lparr>subject_professors := []\<rparr>)
       (ex_edit_request [(''status'', ''REGULAR'')]) 7
     = (ex_grade_db\<lparr>subject_professors := []\<rparr>,
        Inr ([Msg_subject_not_assigned], Redirect ''users:professor-dashboard'' []))"
proof -
  let ?req = "ex_edit_request [(''status'', ''REGULAR'')]"
  let ?d1 = "ex_grade_db\<lparr>subject_inscriptions := []\<rparr>"
  let ?d2 = "ex_grade_db\<lparr>subject_professors := []\<rparr>"
  let ?p = "\<lparr>prof_pk = PyStr ''A'', prof_user = 3\<rparr>"
  have u: "req_user ?req = Some ex_professor_user" "is_professor (Some ex_professor_user)"
    by (simp_all add: ex_edit_request_def is_professor_def ex_professor_user_def)
  have g1: "filter (\<lambda>g. g_id g = 7) (grades ?d1) = [ex_grade]"
    and g2: "filter (\<lambda>g. g_id g = 7) (grades ?d2) = [ex_grade]"
    by (simp_all add: ex_grade_db_def ex_grade_def)
  have p1: "user_professor ?d1 ex_professor_user = Inr ?p"
    and p2: "user_professor ?d2 ex_professor_user = Inr ?p"
    by (simp_all add: user_professor_def ex_grade_db_def ex_db_def ex_professor_user_def)
  have a1: "\<not> (g_subject ex_grade \<notin> set (map sub_code (professor_subjects ?d1 ?p)))"
    by (simp add: professor_subjects_def ex_grade_db_def ex_db_def ex_grade_def)
  have r1: "\<not> inscription_exists ?d1 (g_student ex_grade) (g_subject ex_grade)"
    by (simp add: inscription_exists_def)
  have r2: "g_subject ex_grade \<notin> set (map sub_code (professor_subjects ?d2 ?p))"
    by (simp add: professor_subjects_def)
  have s: "g_subject ex_grade = ''MAT1''" by (simp add: ex_grade_def)
  have c1: "grade_edit ex_grade_form ex_update_status ?d1 ?req 7
     = (?d1, Inr ([Msg_student_not_inscribed], Redirect ''users:grade-list'' [''MAT1'']))"
    using grade_edit_rejected[OF u g1 p1 disjI2[OF r1], of ex_grade_form ex_update_status] a1 s
    by simp
  have c2: "grade_edit ex_grade_form ex_update_status ?d2 ?req 7
     = (?d2, Inr ([Msg_subject_not_assigned], Redirect ''users:professor-dashboard'' []))"
    using grade_edit_rejected[OF u g2 p2 disjI1[OF r2], of ex_grade_form ex_update_status] r2
    by simp
  show ?thesis using c1 c2 by (rule conjI)
qed

text \<open>
  C5.  An accepted edit (the professor teaches the subject, the student is inscribed, the
  request is a POST and the bound form is valid) saves the form into the grade and
  redirects to the grade list.  The status recomputation \<^verbatim>\<open>update_status\<close> runs on the
  saved grade exactly when \<^verbatim>\<open>status\<close> is not among the form's changed fields; when it is,
  the database is the one the save left, so the stored status is the submitted one.  This
  holds for every form and every \<^verbatim>\<open>update_status\<close>.
\<close>

theorem grade_edit_recompute:
  assumes usr: "req_user req = Some usr" "is_professor (Some usr)"
    and grade: "filter (\<lambda>g. g_id g = pk) (grades db) = [grade]"
    and prof: "user_professor db usr = Inr professor"
    and ok: "g_subject grade \<in> set (map sub_code (professor_subjects db professor))"
            "inscription_exists db (g_student grade) (g_subject grade)"
    and post: "req_method req = POST"
    and valid: "gf_is_valid (GradeForm req grade)"
  shows "grade_edit GradeForm update_status db req pk =
           ((if ''status'' \<in> set (gf_changed_data (GradeForm req grade))
             then save_grade (form_save (GradeForm req grade) grade) db
             else update_status (form_save (GradeForm req grade) grade)
                    (save_grade (form_save (GradeForm req grade) grade) db)),
            Inr ([], Redirect ''users:grade-list'' [g_subject grade]))
       \<and> g_status (form_save (GradeForm req grade) grade) = gf_status (GradeForm req grade)
       \<and> grade \<in> set (grades db) \<and> g_id grade = pk
       \<and> form_save (GradeForm req grade) grade
            \<in> set (grades (save_grade (form_save (GradeForm req grade) grade) db))"
proof -
  have in_f: "grade \<in> set (filter (\<lambda>g. g_id g = pk) (grades db))" using grade by simp
  then have mem: "grade \<in> set (grades db)" and id: "g_id grade = pk" by simp_all
  have saved: "form_save (GradeForm req grade) grade
            \<in> set (grades (save_grade (form_save (GradeForm req grade) grade) db))"
    using mem by (force simp: save_grade_def form_save_def)
  have res: "grade_edit GradeForm update_status db req pk =
           ((if ''status'' \<in> set (gf_changed_data (GradeForm req grade))
             then save_grade (form_save (GradeForm req grade) grade) db
             else update_status (form_save (GradeForm req grade) grade)
                    (save_grade (form_save (GradeForm req grade) grade) db)),
            Inr ([], Redirect ''users:grade-list'' [g_subject grade]))"
    using ok valid by (simp add: grade_edit_def guarded_def usr grade prof post Let_def)
  show ?thesis using res mem id saved by (simp add: form_save_def)
qed

theorem grade_edit_recompute_witness:
  "grade_edit ex_grade_form ex_update_status ex_grade_db (ex_edit_request [(''status'', ''REGULAR'')]) 7
     = (ex_grade_db\<lparr>grades := [ex_grade\<lparr>g_status := Some REGULAR, g_scores := Some 8\<rparr>]\<rparr>,
        Inr ([], Redirect ''users:grade-list'' [''MAT1'']))
   \<and> grade_edit ex_grade_form ex_update_status
        (ex_grade_db\<lparr>grades := [ex_grade\<lparr>g_status := Some (Other_status ''LIBRE'')\<rparr>]\<rparr>)
        (ex_edit_request [(''score'', ''8'')]) 7
     = (ex_grade_db\<lparr>grades := [ex_grade\<lparr>g_status := Some REGULAR, g_scores := Some 8\<rparr>]\<rparr>,
        Inr ([], Redirect ''users:grade-list'' [''MAT1'']))
   \<and> grade_edit ex_grade_form (\<lambda>g d. d)
        (ex_grade_db\<lparr>grades := [ex_grade\<lparr>g_status := Some (Other_status ''LIBRE'')\<rparr>]\<rparr>)
        (ex_edit_request [(''score'', ''8'')]) 7
     = (ex_grade_db\<lparr>grades := [ex_grade\<lparr>g_status := Some (Other_status ''LIBRE''), g_scores := Some 8\<rparr>]\<rparr>,
        Inr ([], Redirect ''users:grade-list'' [''MAT1'']))"
proof -
  let ?rs = "ex_edit_request [(''status'', ''REGULAR'')]"
  let ?rn = "ex_edit_request [(''score'', ''8'')]"
  let ?g2 = "ex_grade\<lparr>g_status := Some (Other_status ''LIBRE'')\<rparr>"
  let ?d2 = "ex_grade_db\<lparr>grades := [?g2]\<rparr>"
  let ?p = "\<lparr>prof_pk = PyStr ''A'', prof_user = 3\<rparr>"
  have us: "req_user ?rs = Some ex_professor_user" and un: "req_user ?rn = Some ex_professor_user"
    and ip: "is_professor (Some ex_professor_user)"
    by (simp_all add: ex_edit_request_def is_professor_def ex_professor_user_def)
  have g1: "filter (\<lambda>g. g_id g = 7) (grades ex_grade_db) = [ex_grade]"
    and g2: "filter (\<lambda>g. g_id g = 7) (grades ?d2) = [?g2]"
    by (simp_all add: ex_grade_db_def ex_grade_def)
  have p1: "user_professor ex_grade_db ex_professor_user = Inr ?p"
    and p2: "user_professor ?d2 ex_professor_user = Inr ?p"
    by (simp_all add: user_professor_def ex_grade_db_def ex_db_def ex_professor_user_def)
  have a1: "g_subject ex_grade \<in> set (map sub_code (professor_subjects ex_grade_db ?p))"
    and a2: "g_subject ?g2 \<in> set (map sub_code (professor_subjects ?d2 ?p))"
    by (simp_all add: professor_subjects_def ex_grade_db_def ex_db_def ex_grade_def)
  have i1: "inscription_exists ex_grade_db (g_student ex_grade) (g_subject ex_grade)"
    and i2: "inscription_exists ?d2 (g_student ?g2) (g_subject ?g2)"
    by (simp_all add: inscription_exists_def ex_grade_db_def ex_grade_def SubjectInscription_def)
  have ps: "req_method ?rs = POST" and pn: "req_method ?rn = POST"
    by (simp_all add: ex_edit_request_def)
  have vs: "gf_is_valid (ex_grade_form ?rs ex_grade)" and vn: "gf_is_valid (ex_grade_form ?rn ?g2)"
    by (simp_all add: ex_grade_form_def)
  note c1 = grade_edit_recompute[where GradeForm=ex_grade_form and update_status=ex_update_status, OF us ip g1 p1 a1 i1 ps vs, THEN conjunct1]
  note c2 = grade_edit_recompute[where GradeForm=ex_grade_form and update_status=ex_update_status, OF un ip g2 p2 a2 i2 pn vn, THEN conjunct1]
  note c3 = grade_edit_recompute[where GradeForm=ex_grade_form and update_status="\<lambda>g d. d", OF un ip g2 p2 a2 i2 pn vn, THEN conjunct1]
  have e1: "grade_edit ex_grade_form ex_update_status ex_grade_db ?rs 7
     = (ex_grade_db\<lparr>grades := [ex_grade\<lparr>g_status := Some REGULAR, g_scores := Some 8\<rparr>]\<rparr>,
        Inr ([], Redirect ''users:grade-list'' [''MAT1'']))"
    unfolding c1
    by (simp add: ex_grade_form_def ex_edit_request_def save_grade_def form_save_def ex_grade_db_def ex_grade_def)
  have e2: "grade_edit ex_grade_form ex_update_status ?d2 ?rn 7
     = (ex_grade_db\<lparr>grades := [ex_grade\<lparr>g_status := Some REGULAR, g_scores := Some 8\<rparr>]\<rparr>,
        Inr ([], Redirect ''users:grade-list'' [''MAT1'']))"
    unfolding c2
    by (simp add: ex_grade_form_def ex_edit_request_def save_grade_def form_save_def ex_grade_db_def
        ex_grade_def ex_update_status_def)
  have e3: "grade_edit ex_grade_form (\<lambda>g d. d) ?d2 ?rn 7
     = (ex_grade_db\<lparr>grades := [ex_grade\<lparr>g_status := Some (Other_status ''LIBRE''), g_scores := Some 8\<rparr>]\<rparr>,
        Inr ([], Redirect ''users:grade-list'' [''MAT1'']))"
    unfolding c3
    by (simp add: ex_grade_form_def ex_edit_request_def save_grade_def form_save_def ex_grade_db_def ex_grade_def)
  show ?thesis by (intro conjI e1 e2 e3)
qed

subsection \<open>Inscriptions stay inside the student's career\<close>

lemma filter_empty_list_ex: "(filter P xs = []) = (\<not> list_ex P xs)"
  by (simp add: filter_empty_conv list_ex_iff)

lemma get_or_create_rows:
  "set (fst (get_or_create P new rows)) \<subseteq> insert new (set rows)"
  by (auto simp: get_or_create_def split: list.splits)

lemma get_or_create_new:
  "x \<in> set (fst (get_or_create P new rows)) \<Longrightarrow> x \<notin> set rows \<Longrightarrow> x = new"
  using get_or_create_rows[of P new rows] by auto

text \<open>
  C8.  For a student, \<^verbatim>\<open>subject_inscribe\<close> raises \<^verbatim>\<open>Http404\<close> and leaves the database
  untouched when no subject with the given code belongs to the student's career, and
  \<^verbatim>\<open>final_exam_inscribe\<close> does so when no final exam with the given key has its subject in
  the student's career.  Whatever the request, every inscription row a call adds is the
  requesting student's row for the requested subject or final, and that subject or final
  belongs to the student's career.
\<close>

theorem outside_career_not_found:
  "(\<forall>usr student. req_user req = Some usr \<and> is_student (Some usr) \<and> user_student db usr = Inr student
        \<and> \<not> subject_in_career db student code
      \<longrightarrow> subject_inscribe dflt db req code = (db, Inl Http404))
   \<and> (\<forall>usr student. req_user req = Some usr \<and> is_student (Some usr) \<and> user_student db usr = Inr student
        \<and> \<not> final_in_career db student fid
      \<longrightarrow> final_exam_inscribe db req fid = (db, Inl Http404))
   \<and> (\<forall>i \<in> set (subject_inscriptions (fst (subject_inscribe dflt db req code))) - set (subject_inscriptions db).
        \<exists>usr student. req_user req = Some usr \<and> user_student db usr = Inr student
          \<and> i = SubjectInscription (stu_pk student) code \<and> subject_in_career db student code)
   \<and> (\<forall>i \<in> set (final_inscriptions (fst (final_exam_inscribe db req fid))) - set (final_inscriptions db).
        \<exists>usr student. req_user req = Some usr \<and> user_student db usr = Inr student
          \<and> i = FinalExamInscription (stu_pk student) fid \<and> final_in_career db student fid)"
proof (intro conjI allI impI ballI)
  fix usr student
  assume a: "req_user req = Some usr \<and> is_student (Some usr) \<and> user_student db usr = Inr student
        \<and> \<not> subject_in_career db student code"
  then have "filter (\<lambda>s. sub_code s = code \<and> sub_career s = stu_career student) (subjects db) = []"
    by (simp add: subject_in_career_def filter_empty_list_ex)
  then show "subject_inscribe dflt db req code = (db, Inl Http404)"
    using a by (simp add: subject_inscribe_def guarded_def)
next
  fix usr student
  assume a: "req_user req = Some usr \<and> is_student (Some usr) \<and> user_student db usr = Inr student
        \<and> \<not> final_in_career db student fid"
  then have "filter (\<lambda>f. fe_pk f = fid \<and>
                 list_ex (\<lambda>s. sub_code s = fe_subject f \<and> sub_career s = stu_career student) (subjects db))
               (finals db) = []"
    by (simp add: final_in_career_def subject_in_career_def filter_empty_list_ex)
  then show "final_exam_inscribe db req fid = (db, Inl Http404)"
    using a by (simp add: final_exam_inscribe_def guarded_def)
next
  fix i
  assume i: "i \<in> set (subject_inscriptions (fst (subject_inscribe dflt db req code))) - set (subject_inscriptions db)"
  show "\<exists>usr student. req_user req = Some usr \<and> user_student db usr = Inr student
          \<and> i = SubjectInscription (stu_pk student) code \<and> subject_in_career db student code"
  proof (cases "req_user req")
    case None
    then show ?thesis using i by (simp add: subject_inscribe_def guarded_def)
  next
    case (Some usr)
    show ?thesis
    proof (cases "is_student (Some usr)")
      case False
      then show ?thesis using i Some by (simp add: subject_inscribe_def guarded_def)
    next
      case True
      show ?thesis
      proof (cases "user_student db usr")
        case (Inl e)
        then show ?thesis using i Some True by (simp add: subject_inscribe_def guarded_def)
      next
        case (Inr student)
        let ?f = "filter (\<lambda>s. sub_code s = code \<and> sub_career s = stu_career student) (subjects db)"
        show ?thesis
        proof (cases "get_object_or_404 ?f")
          case (Inl e)
          then show ?thesis using i Some True Inr by (simp add: subject_inscribe_def guarded_def)
        next
          case sub: (Inr subject)
          then have "?f \<noteq> []" by (cases ?f) auto
          then have ic: "subject_in_career db student code"
            by (simp add: subject_in_career_def filter_empty_list_ex)
          have "subject \<in> set ?f" using sub by (cases ?f rule: get_object_or_404.cases) auto
          then have sc: "sub_code subject = code" by simp
          have "i = SubjectInscription (stu_pk student) code"
            using i Some True Inr sub sc
            by (auto simp: subject_inscribe_def guarded_def split: if_splits prod.splits sum.splits
                dest: get_or_create_new[OF _ _, rotated] simp: get_or_create_def split: list.splits)
          then show ?thesis using Some Inr ic by simp
        qed
      qed
    qed
  qed
next
  fix i
  assume i: "i \<in> set (final_inscriptions (fst (final_exam_inscribe db req fid))) - set (final_inscriptions db)"
  show "\<exists>usr student. req_user req = Some usr \<and> user_student db usr = Inr student
          \<and> i = FinalExamInscription (stu_pk student) fid \<and> final_in_career db student fid"
  proof (cases "req_user req")
    case None
    then show ?thesis using i by (simp add: final_exam_inscribe_def guarded_def)
  next
    case (Some usr)
    show ?thesis
    proof (cases "is_student (Some usr)")
      case False
      then show ?thesis using i Some by (simp add: final_exam_inscribe_def guarded_def)
    next
      case True
      show ?thesis
      proof (cases "user_student db usr")
        case (Inl e)
        then show ?thesis using i Some True by (simp add: final_exam_inscribe_def guarded_def)
      next
        case (Inr student)
        let ?f = "filter (\<lambda>f. fe_pk f = fid \<and>
                 list_ex (\<lambda>s. sub_code s = fe_subject f \<and> sub_career s = stu_career student) (subjects db))
               (finals db)"
        show ?thesis
        proof (cases "get_object_or_404 ?f")
          case (Inl e)
          then show ?thesis using i Some True Inr by (simp add: final_exam_inscribe_def guarded_def)
        next
          case fe: (Inr final_exam)
          then have "?f \<noteq> []" by (cases ?f) auto
          then have ic: "final_in_career db student fid"
            by (simp add: final_in_career_def subject_in_career_def filter_empty_list_ex)
          have "final_exam \<in> set ?f" using fe by (cases ?f rule: get_object_or_404.cases) auto
          then have sc: "fe_pk final_exam = fid" by simp
          have "i = FinalExamInscription (stu_pk student) fid"
            using i Some True Inr fe sc
            by (auto simp: final_exam_inscribe_def guarded_def get_or_create_def
                split: if_splits prod.splits sum.splits list.splits option.splits)
          then show ?thesis using Some Inr ic by simp
        qed
      qed
    qed
  qed
qed


theorem outside_career_not_found_witness:
  "subject_inscribe (None, None) ex_db ex_post_request ''DER1'' = (ex_db, Inl Http404)
   \<and> final_exam_inscribe ex_db ex_post_request 2 = (ex_db, Inl Http404)
   \<and> SubjectInscription (PyStr ''L100'') ''MAT1''
        \<in> set (subject_inscriptions (fst (subject_inscribe (None, None) ex_db ex_post_request ''MAT1'')))
          - set (subject_inscriptions ex_db)
   \<and> subject_in_career ex_db ex_student ''MAT1''
   \<and> FinalExamInscription (PyStr ''L100'') 1
        \<in> set (final_inscriptions (fst (final_exam_inscribe ex_regular_db ex_post_request 1)))
          - set (final_inscriptions ex_regular_db)
   \<and> final_in_career ex_regular_db ex_student 1"
proof -
  have u: "req_user ex_post_request = Some ex_student_user"
    and s: "is_student (Some ex_student_user)"
    by (simp_all add: ex_post_request_def is_student_def ex_student_user_def)
  have st: "user_student ex_db ex_student_user = Inr ex_student"
    and st': "user_student ex_regular_db ex_student_user = Inr ex_student"
    by (simp_all add: user_student_def ex_regular_db_def ex_grade_db_def ex_db_def ex_student_user_def
        ex_student_def)
  have n1: "\<not> subject_in_career ex_db ex_student ''DER1''"
    by (simp add: subject_in_career_def ex_db_def ex_student_def)
  have n2: "\<not> final_in_career ex_db ex_student 2"
    by (simp add: final_in_career_def subject_in_career_def ex_db_def ex_student_def)
  have a: "subject_inscribe (None, None) ex_db ex_post_request ''DER1'' = (ex_db, Inl Http404)"
    using outside_career_not_found[where req=ex_post_request and db=ex_db and code="''DER1''" and dflt="(None, None)",
        THEN conjunct1, rule_format, of ex_student_user ex_student] u s st n1
    by simp
  have b: "final_exam_inscribe ex_db ex_post_request 2 = (ex_db, Inl Http404)"
    using outside_career_not_found[where req=ex_post_request and db=ex_db and fid=2,
        THEN conjunct2, THEN conjunct1, rule_format, of ex_student_user ex_student] u s st n2
    by simp
  have f: "subjects ex_db = [\<lparr>sub_code = ''MAT1'', sub_career = ''ISI''\<rparr>, \<lparr>sub_code = ''DER1'', sub_career = ''ABG''\<rparr>]"
    "subject_inscriptions ex_db = []" "grades ex_db = []"
    "subjects ex_regular_db = subjects ex_db"
    "finals ex_regular_db = [\<lparr>fe_pk = 1, fe_subject = ''MAT1''\<rparr>, \<lparr>fe_pk = 2, fe_subject = ''DER1''\<rparr>]"
    "grades ex_regular_db = [ex_grade\<lparr>g_status := Some REGULAR\<rparr>]"
    "final_inscriptions ex_regular_db = []"
    "stu_career ex_student = ''ISI''" "stu_pk ex_student = PyStr ''L100''"
    by (simp_all add: ex_db_def ex_regular_db_def ex_grade_db_def ex_student_def)
  have c: "SubjectInscription (PyStr ''L100'') ''MAT1''
        \<in> set (subject_inscriptions (fst (subject_inscribe (None, None) ex_db ex_post_request ''MAT1'')))
          - set (subject_inscriptions ex_db)"
    by (simp add: subject_inscribe_def guarded_def u s st get_or_create_def f)
       (simp add: ex_post_request_def)
  have d: "FinalExamInscription (PyStr ''L100'') 1
        \<in> set (final_inscriptions (fst (final_exam_inscribe ex_regular_db ex_post_request 1)))
          - set (final_inscriptions ex_regular_db)"
    by (simp add: final_exam_inscribe_def guarded_def u s st' get_or_create_def f latest_grade_def ex_grade_def)
       (simp add: ex_post_request_def)
  have c': "subject_in_career ex_db ex_student ''MAT1''"
    using outside_career_not_found[where req=ex_post_request and db=ex_db and code="''MAT1''" and dflt="(None, None)",
        THEN conjunct2, THEN conjunct2, THEN conjunct1, rule_format, OF c] u st
    by auto
  have d': "final_in_career ex_regular_db ex_student 1"
    using outside_career_not_found[where req=ex_post_request and db=ex_regular_db and fid=1,
        THEN conjunct2, THEN conjunct2, THEN conjunct2, rule_format, OF d] u st'
    by auto
  show ?thesis by (intro conjI a b c c' d d')
qed

subsection \<open>Inscribing twice\<close>

lemma get_or_create_unique:
  assumes "length (filter P rows) \<le> 1"
  shows "get_or_create P new rows =
           (rows @ (if filter P rows = [] then [new] else []),
            Inr (if filter P rows = [] then new else hd (filter P rows), filter P rows = []))"
proof (cases "filter P rows")
  case Nil
  then show ?thesis by (simp add: get_or_create_def)
next
  case (Cons x xs)
  then have "xs = []" using assms by simp
  then show ?thesis using Cons by (simp add: get_or_create_def)
qed

lemma subject_inscribe_post:
  assumes usr: "req_user req = Some usr" "is_student (Some usr)"
    and stu: "user_student db usr = Inr student"
    and sub: "filter (\<lambda>s. sub_code s = code \<and> sub_career s = stu_career student) (subjects db) = [subject]"
    and post: "req_method req = POST"
    and ui: "length (inscriptions_of db (stu_pk student) code) \<le> 1"
    and ug: "length (grades_of db (stu_pk student) code) \<le> 1"
  shows "subject_inscribe dflt db req code =
           (db\<lparr>subject_inscriptions := subject_inscriptions db @
                   (if inscriptions_of db (stu_pk student) code = []
                    then [SubjectInscription (stu_pk student) code] else []),
                grades := grades db @
                   (if grades_of db (stu_pk student) code = []
                    then [Grade dflt (next_grade_id (grades db)) (stu_pk student) code] else [])\<rparr>,
            Inr ([if inscriptions_of db (stu_pk student) code = []
                  then Msg_subject_inscribed else Msg_already_inscribed],
                 Redirect ''users:student-dashboard'' []))"
proof -
  have sc: "sub_code subject = code" using filter_single[OF sub] by simp
  have g1: "get_or_create (\<lambda>i. si_student i = stu_pk student \<and> si_subject i = code)
              (SubjectInscription (stu_pk student) code) (subject_inscriptions db) =
            (subject_inscriptions db @ (if inscriptions_of db (stu_pk student) code = []
                    then [SubjectInscription (stu_pk student) code] else []),
             Inr (if inscriptions_of db (stu_pk student) code = []
                  then SubjectInscription (stu_pk student) code
                  else hd (inscriptions_of db (stu_pk student) code),
                  inscriptions_of db (stu_pk student) code = []))"
    using get_or_create_unique[OF ui[unfolded inscriptions_of_def]] by (simp add: inscriptions_of_def)
  have g2: "get_or_create (\<lambda>g. g_student g = stu_pk student \<and> g_subject g = code)
              (Grade dflt (next_grade_id (grades db)) (stu_pk student) code) (grades db) =
            (grades db @ (if grades_of db (stu_pk student) code = []
                    then [Grade dflt (next_grade_id (grades db)) (stu_pk student) code] else []),
             Inr (if grades_of db (stu_pk student) code = []
                  then Grade dflt (next_grade_id (grades db)) (stu_pk student) code
                  else hd (grades_of db (stu_pk student) code),
                  grades_of db (stu_pk student) code = []))"
    using get_or_create_unique[OF ug[unfolded grades_of_def]] by (simp add: grades_of_def)
  show ?thesis
    by (simp add: subject_inscribe_def guarded_def usr stu sub post sc g1 g2)
qed

text \<open>
  C4.  For a student and a subject of the student's career, with at most one inscription and
  at most one grade stored for the pair: a POST to \<^verbatim>\<open>subject_inscribe\<close> appends the
  inscription and the grade that are missing and nothing else, reports a new inscription
  exactly when none was stored, and leaves exactly one inscription and exactly one grade for
  the pair.  A second POST on the resulting database changes nothing and answers with the
  "already inscribed" message and the same redirect.
\<close>

theorem subject_inscribe_twice:
  assumes usr: "req_user req = Some usr" "is_student (Some usr)"
    and stu: "user_student db usr = Inr student"
    and sub: "filter (\<lambda>s. sub_code s = code \<and> sub_career s = stu_career student) (subjects db) = [subject]"
    and post: "req_method req = POST"
    and ui: "length (inscriptions_of db (stu_pk student) code) \<le> 1"
    and ug: "length (grades_of db (stu_pk student) code) \<le> 1"
  shows "subject_inscribe dflt db req code =
           (db\<lparr>subject_inscriptions := subject_inscriptions db @
                   (if inscriptions_of db (stu_pk student) code = []
                    then [SubjectInscription (stu_pk student) code] else []),
                grades := grades db @
                   (if grades_of db (stu_pk student) code = []
                    then [Grade dflt (next_grade_id (grades db)) (stu_pk student) code] else [])\<rparr>,
            Inr ([if inscriptions_of db (stu_pk student) code = []
                  then Msg_subject_inscribed else Msg_already_inscribed],
                 Redirect ''users:student-dashboard'' []))
       \<and> length (inscriptions_of (fst (subject_inscribe dflt db req code)) (stu_pk student) code) = 1
       \<and> length (grades_of (fst (subject_inscribe dflt db req code)) (stu_pk student) code) = 1
       \<and> subject_inscribe dflt (fst (subject_inscribe dflt db req code)) req code =
           (fst (subject_inscribe dflt db req code),
            Inr ([Msg_already_inscribed], Redirect ''users:student-dashboard'' []))"
proof -
  let ?db1 = "fst (subject_inscribe dflt db req code)"
  note first = subject_inscribe_post[OF usr stu sub post ui ug, of dflt]
  have i1: "length (inscriptions_of ?db1 (stu_pk student) code) = 1"
  proof (cases "inscriptions_of db (stu_pk student) code")
    case Nil
    then show ?thesis unfolding first
      by (simp add: inscriptions_of_def SubjectInscription_def)
  next
    case (Cons x xs)
    then have "xs = []" using ui by simp
    then show ?thesis unfolding first using Cons by (simp add: inscriptions_of_def)
  qed
  have g1: "length (grades_of ?db1 (stu_pk student) code) = 1"
  proof (cases "grades_of db (stu_pk student) code")
    case Nil
    then show ?thesis unfolding first
      by (simp add: grades_of_def Grade_def)
  next
    case (Cons x xs)
    then have "xs = []" using ug by simp
    then show ?thesis unfolding first using Cons by (simp add: grades_of_def)
  qed
  have stu1: "user_student ?db1 usr = Inr student"
    unfolding first using stu by (simp add: user_student_def)
  have sub1: "filter (\<lambda>s. sub_code s = code \<and> sub_career s = stu_career student) (subjects ?db1) = [subject]"
    unfolding first using sub by simp
  have ne: "inscriptions_of ?db1 (stu_pk student) code \<noteq> []"
    "grades_of ?db1 (stu_pk student) code \<noteq> []"
    using i1 g1 by auto
  have second: "subject_inscribe dflt ?db1 req code =
           (?db1, Inr ([Msg_already_inscribed], Redirect ''users:student-dashboard'' []))"
    using subject_inscribe_post[OF usr stu1 sub1 post, of dflt] i1 g1 ne by simp
  show ?thesis using first i1 g1 second by simp
qed


theorem subject_inscribe_twice_witness:
  "subject_inscribe (None, None) ex_db ex_post_request ''MAT1'' =
     (ex_db\<lparr>subject_inscriptions := [SubjectInscription (PyStr ''L100'') ''MAT1''],
            grades := [Grade (None, None) 1 (PyStr ''L100'') ''MAT1'']\<rparr>,
      Inr ([Msg_subject_inscribed], Redirect ''users:student-dashboard'' []))
   \<and> subject_inscribe (None, None)
        (ex_db\<lparr>subject_inscriptions := [SubjectInscription (PyStr ''L100'') ''MAT1''],
               grades := [Grade (None, None) 1 (PyStr ''L100'') ''MAT1'']\<rparr>) ex_post_request ''MAT1'' =
     (ex_db\<lparr>subject_inscriptions := [SubjectInscription (PyStr ''L100'') ''MAT1''],
            grades := [Grade (None, None) 1 (PyStr ''L100'') ''MAT1'']\<rparr>,
      Inr ([Msg_already_inscribed], Redirect ''users:student-dashboard'' []))"
proof -
  have u: "req_user ex_post_request = Some ex_student_user"
    and s: "is_student (Some ex_student_user)"
    and p: "req_method ex_post_request = POST"
    by (simp_all add: ex_post_request_def is_student_def ex_student_user_def)
  have st: "user_student ex_db ex_student_user = Inr ex_student"
    by (simp add: user_student_def ex_db_def ex_student_user_def ex_student_def)
  have f: "subject_inscriptions ex_db = []" "grades ex_db = []"
    "stu_career ex_student = ''ISI''" "stu_pk ex_student = PyStr ''L100''"
    by (simp_all add: ex_db_def ex_student_def)
  have sb: "filter (\<lambda>s. sub_code s = ''MAT1'' \<and> sub_career s = stu_career ex_student) (subjects ex_db)
              = [\<lparr>sub_code = ''MAT1'', sub_career = ''ISI''\<rparr>]"
    by (simp add: ex_db_def ex_student_def)
  have ui: "length (inscriptions_of ex_db (stu_pk ex_student) ''MAT1'') \<le> 1"
    and ug: "length (grades_of ex_db (stu_pk ex_student) ''MAT1'') \<le> 1"
    by (simp_all add: inscriptions_of_def grades_of_def f)
  note c = subject_inscribe_twice[OF u s st sb p ui ug, of "(None, None)"]
  have a: "subject_inscribe (None, None) ex_db ex_post_request ''MAT1'' =
     (ex_db\<lparr>subject_inscriptions := [SubjectInscription (PyStr ''L100'') ''MAT1''],
            grades := [Grade (None, None) 1 (PyStr ''L100'') ''MAT1'']\<rparr>,
      Inr ([Msg_subject_inscribed], Redirect ''users:student-dashboard'' []))"
    using c[THEN conjunct1] by (simp add: inscriptions_of_def grades_of_def f next_grade_id_def)
  have b: "subject_inscribe (None, None)
        (ex_db\<lparr>subject_inscriptions := [SubjectInscription (PyStr ''L100'') ''MAT1''],
               grades := [Grade (None, None) 1 (PyStr ''L100'') ''MAT1'']\<rparr>) ex_post_request ''MAT1'' =
     (ex_db\<lparr>subject_inscriptions := [SubjectInscription (PyStr ''L100'') ''MAT1''],
            grades := [Grade (None, None) 1 (PyStr ''L100'') ''MAT1'']\<rparr>,
      Inr ([Msg_already_inscribed], Redirect ''users:student-dashboard'' []))"
    using c[THEN conjunct2, THEN conjunct2, THEN conjunct2] unfolding a by simp
  show ?thesis by (intro conjI a b)
qed

lemma latest_fold:
  "fold (\<lambda>a b. if g_id b < g_id a then a else b) rest g \<in> set (g # rest)
   \<and> (\<forall>h \<in> set (g # rest). g_id h \<le> g_id (fold (\<lambda>a b. if g_id b < g_id a then a else b) rest g))"
proof (induction rest arbitrary: g)
  case Nil
  then show ?case by simp
next
  case (Cons a rest)
  show ?case using Cons.IH[of a] Cons.IH[of g] by (auto simp: not_less intro: order_trans)
qed

lemma latest_grade_none:
  "(latest_grade sid sc (grades db) = None) = (grades_of db sid sc = [])"
  by (simp add: latest_grade_def grades_of_def split: list.splits)

lemma latest_grade_some:
  assumes "latest_grade sid sc (grades db) = Some g"
  shows "g \<in> set (grades_of db sid sc) \<and> (\<forall>h \<in> set (grades_of db sid sc). g_id h \<le> g_id g)"
proof (cases "grades_of db sid sc")
  case Nil
  then show ?thesis using assms by (simp add: latest_grade_def grades_of_def)
next
  case (Cons x rest)
  then have "g = fold (\<lambda>a b. if g_id b < g_id a then a else b) rest x"
    using assms by (simp add: latest_grade_def grades_of_def)
  then show ?thesis using latest_fold[of rest x] Cons by simp
qed

lemma final_exam_inscribe_post:
  assumes usr: "req_user req = Some usr" "is_student (Some usr)"
    and stu: "user_student db usr = Inr student"
    and fe: "filter (\<lambda>f. fe_pk f = fid \<and>
                 list_ex (\<lambda>s. sub_code s = fe_subject f \<and> sub_career s = stu_career student) (subjects db))
               (finals db) = [final_exam]"
    and reg: "latest_grade (stu_pk student) (fe_subject final_exam) (grades db) = Some g"
             "g_status g = Some REGULAR"
    and post: "req_method req = POST"
    and ui: "length (final_inscriptions_of db (stu_pk student) fid) \<le> 1"
  shows "final_exam_inscribe db req fid =
           (db\<lparr>final_inscriptions := final_inscriptions db @
                   (if final_inscriptions_of db (stu_pk student) fid = []
                    then [FinalExamInscription (stu_pk student) fid] else [])\<rparr>,
            Inr ([Msg_final_inscribed], Redirect ''users:student-dashboard'' []))"
proof -
  have pk: "fe_pk final_exam = fid" using filter_single[OF fe] by simp
  have g1: "get_or_create (\<lambda>i. fei_student i = stu_pk student \<and> fei_final_exam i = fid)
              (FinalExamInscription (stu_pk student) fid) (final_inscriptions db) =
            (final_inscriptions db @ (if final_inscriptions_of db (stu_pk student) fid = []
                    then [FinalExamInscription (stu_pk student) fid] else []),
             Inr (if final_inscriptions_of db (stu_pk student) fid = []
                  then FinalExamInscription (stu_pk student) fid
                  else hd (final_inscriptions_of db (stu_pk student) fid),
                  final_inscriptions_of db (stu_pk student) fid = []))"
    using get_or_create_unique[OF ui[unfolded final_inscriptions_of_def]]
    by (simp add: final_inscriptions_of_def)
  show ?thesis
    by (simp add: final_exam_inscribe_def guarded_def usr stu fe post pk g1 reg)
qed

text \<open>
  C3.  For a student and a final exam of the student's career, \<^verbatim>\<open>final_exam_inscribe\<close>
  answers with the "only if regular" redirect and an unchanged database exactly when the
  student has no grade for the final's subject or the grade with the greatest key has a
  status other than REGULAR.  \<^verbatim>\<open>latest_grade\<close> is that grade: one of the student's grades
  for the subject, with no key above its own.  When it is REGULAR, a POST (with at most one
  inscription stored for the pair) appends the inscription only if it is missing, leaves
  exactly one, and a repeated POST changes nothing and succeeds again.
\<close>

theorem final_exam_inscribe_regular:
  assumes usr: "req_user req = Some usr" "is_student (Some usr)"
    and stu: "user_student db usr = Inr student"
    and fe: "filter (\<lambda>f. fe_pk f = fid \<and>
                 list_ex (\<lambda>s. sub_code s = fe_subject f \<and> sub_career s = stu_career student) (subjects db))
               (finals db) = [final_exam]"
  shows "(final_exam_inscribe db req fid =
            (db, Inr ([Msg_only_if_regular], Redirect ''users:student-dashboard'' [])))
          = (case latest_grade (stu_pk student) (fe_subject final_exam) (grades db) of
               None \<Rightarrow> True | Some g \<Rightarrow> g_status g \<noteq> Some REGULAR)
       \<and> (latest_grade (stu_pk student) (fe_subject final_exam) (grades db) = None)
          = (grades_of db (stu_pk student) (fe_subject final_exam) = [])
       \<and> (\<forall>g. latest_grade (stu_pk student) (fe_subject final_exam) (grades db) = Some g \<longrightarrow>
             g \<in> set (grades_of db (stu_pk student) (fe_subject final_exam))
             \<and> (\<forall>h \<in> set (grades_of db (stu_pk student) (fe_subject final_exam)). g_id h \<le> g_id g))
       \<and> (\<forall>g. latest_grade (stu_pk student) (fe_subject final_exam) (grades db) = Some g
              \<and> g_status g = Some REGULAR \<and> req_method req = POST
              \<and> length (final_inscriptions_of db (stu_pk student) fid) \<le> 1 \<longrightarrow>
            final_exam_inscribe db req fid =
              (db\<lparr>final_inscriptions := final_inscriptions db @
                     (if final_inscriptions_of db (stu_pk student) fid = []
                      then [FinalExamInscription (stu_pk student) fid] else [])\<rparr>,
               Inr ([Msg_final_inscribed], Redirect ''users:student-dashboard'' []))
            \<and> length (final_inscriptions_of (fst (final_exam_inscribe db req fid)) (stu_pk student) fid) = 1
            \<and> final_exam_inscribe (fst (final_exam_inscribe db req fid)) req fid =
                (fst (final_exam_inscribe db req fid),
                 Inr ([Msg_final_inscribed], Redirect ''users:student-dashboard'' [])))"
proof (intro conjI allI impI)
  show "(final_exam_inscribe db req fid =
            (db, Inr ([Msg_only_if_regular], Redirect ''users:student-dashboard'' [])))
          = (case latest_grade (stu_pk student) (fe_subject final_exam) (grades db) of
               None \<Rightarrow> True | Some g \<Rightarrow> g_status g \<noteq> Some REGULAR)"
    by (simp add: final_exam_inscribe_def guarded_def usr stu fe split: option.splits prod.splits sum.splits)
next
  show "(latest_grade (stu_pk student) (fe_subject final_exam) (grades db) = None)
          = (grades_of db (stu_pk student) (fe_subject final_exam) = [])"
    by (rule latest_grade_none)
next
  fix g assume "latest_grade (stu_pk student) (fe_subject final_exam) (grades db) = Some g"
  then show "g \<in> set (grades_of db (stu_pk student) (fe_subject final_exam))"
    using latest_grade_some by blast
next
  fix g assume "latest_grade (stu_pk student) (fe_subject final_exam) (grades db) = Some g"
  then show "\<forall>h \<in> set (grades_of db (stu_pk student) (fe_subject final_exam)). g_id h \<le> g_id g"
    using latest_grade_some by blast
next
  fix g
  assume a: "latest_grade (stu_pk student) (fe_subject final_exam) (grades db) = Some g
              \<and> g_status g = Some REGULAR \<and> req_method req = POST
              \<and> length (final_inscriptions_of db (stu_pk student) fid) \<le> 1"
  then have reg: "latest_grade (stu_pk student) (fe_subject final_exam) (grades db) = Some g"
    "g_status g = Some REGULAR" and post: "req_method req = POST"
    and ui: "length (final_inscriptions_of db (stu_pk student) fid) \<le> 1" by simp_all
  let ?db1 = "fst (final_exam_inscribe db req fid)"
  note first = final_exam_inscribe_post[OF usr stu fe reg post ui]
  have i1: "length (final_inscriptions_of ?db1 (stu_pk student) fid) = 1"
  proof (cases "final_inscriptions_of db (stu_pk student) fid")
    case Nil
    then show ?thesis unfolding first
      by (simp add: final_inscriptions_of_def FinalExamInscription_def)
  next
    case (Cons x xs)
    then have "xs = []" using ui by simp
    then show ?thesis unfolding first using Cons by (simp add: final_inscriptions_of_def)
  qed
  have stu1: "user_student ?db1 usr = Inr student"
    unfolding first using stu by (simp add: user_student_def)
  have fe1: "filter (\<lambda>f. fe_pk f = fid \<and>
                 list_ex (\<lambda>s. sub_code s = fe_subject f \<and> sub_career s = stu_career student) (subjects ?db1))
               (finals ?db1) = [final_exam]"
    unfolding first using fe by simp
  have reg1: "latest_grade (stu_pk student) (fe_subject final_exam) (grades ?db1) = Some g"
    unfolding first using reg by simp
  have ne: "final_inscriptions_of ?db1 (stu_pk student) fid \<noteq> []" using i1 by auto
  have second: "final_exam_inscribe ?db1 req fid =
           (?db1, Inr ([Msg_final_inscribed], Redirect ''users:student-dashboard'' []))"
    using final_exam_inscribe_post[OF usr stu1 fe1 reg1 reg(2) post] i1 ne by simp
  show "final_exam_inscribe db req fid =
              (db\<lparr>final_inscriptions := final_inscriptions db @
                     (if final_inscriptions_of db (stu_pk student) fid = []
                      then [FinalExamInscription (stu_pk student) fid] else [])\<rparr>,
               Inr ([Msg_final_inscribed], Redirect ''users:student-dashboard'' []))"
    by (rule first)
  show "length (final_inscriptions_of ?db1 (stu_pk student) fid) = 1" by (rule i1)
  show "final_exam_inscribe ?db1 req fid =
           (?db1, Inr ([Msg_final_inscribed], Redirect ''users:student-dashboard'' []))"
    by (rule second)
qed


theorem final_exam_inscribe_regular_witness:
  "final_exam_inscribe ex_grade_db ex_post_request 1 =
     (ex_grade_db, Inr ([Msg_only_if_regular], Redirect ''users:student-dashboard'' []))
   \<and> final_exam_inscribe ex_regular_db ex_post_request 1 =
     (ex_regular_db\<lparr>final_inscriptions := [FinalExamInscription (PyStr ''L100'') 1]\<rparr>,
      Inr ([Msg_final_inscribed], Redirect ''users:student-dashboard'' []))
   \<and> final_exam_inscribe (ex_regular_db\<lparr>final_inscriptions := [FinalExamInscription (PyStr ''L100'') 1]\<rparr>)
        ex_post_request 1 =
     (ex_regular_db\<lparr>final_inscriptions := [FinalExamInscription (PyStr ''L100'') 1]\<rparr>,
      Inr ([Msg_final_inscribed], Redirect ''users:student-dashboard'' []))"
proof -
  let ?fe = "\<lparr>fe_pk = 1, fe_subject = ''MAT1''\<rparr>"
  let ?g = "ex_grade\<lparr>g_status := Some REGULAR\<rparr>"
  have u: "req_user ex_post_request = Some ex_student_user"
    and s: "is_student (Some ex_student_user)"
    and p: "req_method ex_post_request = POST"
    by (simp_all add: ex_post_request_def is_student_def ex_student_user_def)
  have st: "user_student ex_grade_db ex_student_user = Inr ex_student"
    and st': "user_student ex_regular_db ex_student_user = Inr ex_student"
    by (simp_all add: user_student_def ex_regular_db_def ex_grade_db_def ex_db_def ex_student_user_def
        ex_student_def)
  have f: "grades ex_grade_db = [ex_grade]" "grades ex_regular_db = [?g]"
    "final_inscriptions ex_regular_db = []"
    "stu_career ex_student = ''ISI''" "stu_pk ex_student = PyStr ''L100''"
    by (simp_all add: ex_db_def ex_regular_db_def ex_grade_db_def ex_student_def)
  have fe: "filter (\<lambda>f. fe_pk f = 1 \<and>
                 list_ex (\<lambda>s. sub_code s = fe_subject f \<and> sub_career s = stu_career ex_student)
                   (subjects ex_grade_db)) (finals ex_grade_db) = [?fe]"
    and fe': "filter (\<lambda>f. fe_pk f = 1 \<and>
                 list_ex (\<lambda>s. sub_code s = fe_subject f \<and> sub_career s = stu_career ex_student)
                   (subjects ex_regular_db)) (finals ex_regular_db) = [?fe]"
    by (simp_all add: ex_db_def ex_regular_db_def ex_grade_db_def ex_student_def)
  have l: "latest_grade (stu_pk ex_student) (fe_subject ?fe) (grades ex_grade_db) = Some ex_grade"
    and l': "latest_grade (stu_pk ex_student) (fe_subject ?fe) (grades ex_regular_db) = Some ?g"
    by (simp_all add: latest_grade_def f ex_grade_def)
  have a: "final_exam_inscribe ex_grade_db ex_post_request 1 =
     (ex_grade_db, Inr ([Msg_only_if_regular], Redirect ''users:student-dashboard'' []))"
    using final_exam_inscribe_regular[OF u s st fe, THEN conjunct1] l by (simp add: ex_grade_def)
  have ui: "length (final_inscriptions_of ex_regular_db (stu_pk ex_student) 1) \<le> 1"
    by (simp add: final_inscriptions_of_def f)
  have gr: "g_status ?g = Some REGULAR" by simp
  note c = final_exam_inscribe_regular[OF u s st' fe', THEN conjunct2, THEN conjunct2, THEN conjunct2,
      rule_format, OF conjI[OF l' conjI[OF gr conjI[OF p ui]]]]
  have b: "final_exam_inscribe ex_regular_db ex_post_request 1 =
     (ex_regular_db\<lparr>final_inscriptions := [FinalExamInscription (PyStr ''L100'') 1]\<rparr>,
      Inr ([Msg_final_inscribed], Redirect ''users:student-dashboard'' []))"
    using c[THEN conjunct1] by (simp add: final_inscriptions_of_def f)
  have d: "final_exam_inscribe (ex_regular_db\<lparr>final_inscriptions := [FinalExamInscription (PyStr ''L100'') 1]\<rparr>)
        ex_post_request 1 =
     (ex_regular_db\<lparr>final_inscriptions := [FinalExamInscription (PyStr ''L100'') 1]\<rparr>,
      Inr ([Msg_final_inscribed], Redirect ''users:student-dashboard'' []))"
    using c[THEN conjunct2, THEN conjunct2] unfolding b by simp
  show ?thesis by (intro conjI a b d)
qed

subsection \<open>Backfilling the missing grades\<close>

lemma distinct_py_set: "distinct (py_set xs)"
  by (simp add: py_set_def)

lemma distinct_set_minus: "distinct xs \<Longrightarrow> distinct (set_minus xs ys)"
  by (simp add: set_minus_def)

lemma map_zip_upt_student:
  "map g_student (map (\<lambda>(k, sid). Grade dflt (n + k) sid sc) (zip [0 ..< length ms] ms)) = ms"
proof -
  have "map g_student (map (\<lambda>(k, sid). Grade dflt (n + k) sid sc) (zip [0 ..< length ms] ms))
          = map snd (zip [0 ..< length ms] ms)"
    by (simp add: Grade_def case_prod_beta comp_def)
  then show ?thesis by simp
qed

lemma new_rows_default:
  "g \<in> set (map (\<lambda>(k, sid). Grade dflt (n + k) sid sc) (zip [0 ..< length ms] ms)) \<Longrightarrow>
     g_subject g = sc \<and> g_status g = fst dflt \<and> g_scores g = snd dflt \<and> n \<le> g_id g"
  by (auto simp: Grade_def)

lemma missing_set:
  "set (set_minus (py_set (map si_student (filter (\<lambda>i. si_subject i = sc) ins)))
                  (py_set (map g_student (filter (\<lambda>g. g_subject g = sc) gs))))
     = enrolled_ids sc ins - graded_ids sc gs"
  by (auto simp: set_set_minus set_py_set enrolled_ids_def graded_ids_def)

lemma backfill_unfold:
  "backfill_missing_grades dflt sc ins gs =
     (let ms = set_minus (py_set (map si_student (filter (\<lambda>i. si_subject i = sc) ins)))
                         (py_set (map g_student (filter (\<lambda>g. g_subject g = sc) gs)))
      in if ms \<noteq> [] then
           (gs @ map (\<lambda>(k, sid). Grade dflt (next_grade_id gs + k) sid sc) (zip [0 ..< length ms] ms),
            [map (\<lambda>(k, sid). Grade dflt (next_grade_id gs + k) sid sc) (zip [0 ..< length ms] ms)])
         else (gs, []))"
  by (simp add: backfill_missing_grades_def bulk_create_def Let_def)

lemma graded_ids_append:
  "graded_ids sc (gs @ new) = graded_ids sc gs \<union> graded_ids sc new"
  by (auto simp: graded_ids_def)

lemma graded_ids_same_subject:
  "\<forall>g \<in> set new. g_subject g = sc \<Longrightarrow> graded_ids sc new = g_student ` set new"
  by (auto simp: graded_ids_def)

lemma backfill_props:
  fixes dflt :: "status option \<times> 's"
  defines "r \<equiv> \<lambda>sc ins gs. backfill_missing_grades dflt sc ins gs"
  shows "fst (r sc ins gs) = gs @ concat (snd (r sc ins gs))"
    and "length (snd (r sc ins gs)) \<le> 1"
    and "(snd (r sc ins gs) = []) = (enrolled_ids sc ins \<subseteq> graded_ids sc gs)"
    and "g_student ` set (concat (snd (r sc ins gs))) = enrolled_ids sc ins - graded_ids sc gs"
    and "distinct (map g_student (concat (snd (r sc ins gs))))"
    and "\<forall>g \<in> set (concat (snd (r sc ins gs))).
           g_subject g = sc \<and> g_status g = fst dflt \<and> g_scores g = snd dflt"
    and "r sc ins (fst (r sc ins gs)) = (fst (r sc ins gs), [])"
proof -
  let ?ms = "set_minus (py_set (map si_student (filter (\<lambda>i. si_subject i = sc) ins)))
                         (py_set (map g_student (filter (\<lambda>g. g_subject g = sc) gs)))"
  let ?new = "map (\<lambda>(k, sid). Grade dflt (next_grade_id gs + k) sid sc) (zip [0 ..< length ?ms] ?ms)"
  have ms: "set ?ms = enrolled_ids sc ins - graded_ids sc gs" by (rule missing_set)
  have dms: "distinct ?ms" by (intro distinct_set_minus distinct_py_set)
  have st: "map g_student ?new = ?ms" by (rule map_zip_upt_student)
  have r: "r sc ins gs = (if ?ms \<noteq> [] then (gs @ ?new, [?new]) else (gs, []))"
    by (simp add: r_def backfill_unfold Let_def)
  have cc: "concat (snd (r sc ins gs)) = ?new"
    unfolding r by simp
  show "fst (r sc ins gs) = gs @ concat (snd (r sc ins gs))" unfolding r by simp
  show "length (snd (r sc ins gs)) \<le> 1" unfolding r by simp
  have "(?ms = []) = (enrolled_ids sc ins \<subseteq> graded_ids sc gs)"
    using ms by (metis Diff_eq_empty_iff set_empty)
  then show "(snd (r sc ins gs) = []) = (enrolled_ids sc ins \<subseteq> graded_ids sc gs)"
    unfolding r by simp
  have img: "g_student ` set ?new = set ?ms" using st by (metis set_map)
  show "g_student ` set (concat (snd (r sc ins gs))) = enrolled_ids sc ins - graded_ids sc gs"
    unfolding cc img ms ..
  show "distinct (map g_student (concat (snd (r sc ins gs))))"
    unfolding cc st by (rule dms)
  show "\<forall>g \<in> set (concat (snd (r sc ins gs))).
           g_subject g = sc \<and> g_status g = fst dflt \<and> g_scores g = snd dflt"
    unfolding cc using new_rows_default by blast
  have sub: "\<forall>g \<in> set ?new. g_subject g = sc" using new_rows_default by blast
  have g1: "graded_ids sc ?new = set ?ms"
    using graded_ids_same_subject[OF sub] img by (simp only:)
  have gi: "graded_ids sc (gs @ ?new) = graded_ids sc gs \<union> (enrolled_ids sc ins - graded_ids sc gs)"
    unfolding graded_ids_append g1 ms ..
  have fr: "fst (r sc ins gs) = gs @ ?new" unfolding r by simp
  have "enrolled_ids sc ins - graded_ids sc (fst (r sc ins gs)) = {}"
    unfolding fr gi by blast
  then have "set_minus (py_set (map si_student (filter (\<lambda>i. si_subject i = sc) ins)))
                 (py_set (map g_student (filter (\<lambda>g. g_subject g = sc) (fst (r sc ins gs))))) = []"
    using missing_set[of sc ins "fst (r sc ins gs)"] by (metis set_empty)
  then show "r sc ins (fst (r sc ins gs)) = (fst (r sc ins gs), [])"
    by (simp add: r_def backfill_unfold Let_def)
qed


text \<open>
  C6.  The backfill of \<^verbatim>\<open>grade_list\<close> appends to the grades the rows it writes and
  nothing else, in at most one \<^verbatim>\<open>bulk_create\<close> call, and in none when every inscribed
  student has a grade.  The rows written carry the subject and the defaults of a new
  grade, one row for each student inscribed in the subject without a grade for it and no
  other.  Run again on its own result it writes nothing.  For a professor of the subject
  the view returns the database with exactly these grades.
\<close>

theorem backfill_missing_grades_exact:
  "fst (backfill_missing_grades dflt sc ins gs) = gs @ concat (snd (backfill_missing_grades dflt sc ins gs))
   \<and> length (snd (backfill_missing_grades dflt sc ins gs)) \<le> 1
   \<and> (snd (backfill_missing_grades dflt sc ins gs) = []) = (enrolled_ids sc ins \<subseteq> graded_ids sc gs)
   \<and> g_student ` set (concat (snd (backfill_missing_grades dflt sc ins gs)))
        = enrolled_ids sc ins - graded_ids sc gs
   \<and> distinct (map g_student (concat (snd (backfill_missing_grades dflt sc ins gs))))
   \<and> (\<forall>g \<in> set (concat (snd (backfill_missing_grades dflt sc ins gs))).
         g_subject g = sc \<and> g_status g = fst dflt \<and> g_scores g = snd dflt)
   \<and> backfill_missing_grades dflt sc ins (fst (backfill_missing_grades dflt sc ins gs))
        = (fst (backfill_missing_grades dflt sc ins gs), [])
   \<and> (\<forall>usr professor subject.
         req_user req = Some usr \<and> is_professor (Some usr) \<and> user_professor db usr = Inr professor
         \<and> filter (\<lambda>s. sub_code s = sc \<and> (sub_code s, prof_pk professor) \<in> set (subject_professors db))
              (subjects db) = [subject]
         \<longrightarrow> grade_list dflt db req sc =
               (db\<lparr>grades := fst (backfill_missing_grades dflt sc (subject_inscriptions db) (grades db))\<rparr>,
                Inr ([], Render ''users/grade_list.html'')))"
proof (intro conjI allI impI)
  fix usr professor subject
  assume a: "req_user req = Some usr \<and> is_professor (Some usr) \<and> user_professor db usr = Inr professor
         \<and> filter (\<lambda>s. sub_code s = sc \<and> (sub_code s, prof_pk professor) \<in> set (subject_professors db))
              (subjects db) = [subject]"
  then have f: "filter (\<lambda>s. sub_code s = sc \<and> (sub_code s, prof_pk professor) \<in> set (subject_professors db))
              (subjects db) = [subject]" by simp
  have "sub_code subject = sc" using filter_single[OF f] by simp
  then show "grade_list dflt db req sc =
               (db\<lparr>grades := fst (backfill_missing_grades dflt sc (subject_inscriptions db) (grades db))\<rparr>,
                Inr ([], Render ''users/grade_list.html''))"
    using a by (simp add: grade_list_def guarded_def)
qed (rule backfill_props)+

theorem backfill_missing_grades_exact_witness:
  "backfill_missing_grades (None, None) ''MAT1'' (subject_inscriptions ex_backfill_db) (grades ex_backfill_db)
     = ([ex_grade, Grade (None, None) 8 (PyStr ''L200'') ''MAT1'', Grade (None, None) 9 (PyStr ''L300'') ''MAT1''],
        [[Grade (None, None) 8 (PyStr ''L200'') ''MAT1'', Grade (None, None) 9 (PyStr ''L300'') ''MAT1'']])
   \<and> backfill_missing_grades (None, None) ''MAT1'' (subject_inscriptions ex_backfill_db)
        [ex_grade, Grade (None, None) 8 (PyStr ''L200'') ''MAT1'', Grade (None, None) 9 (PyStr ''L300'') ''MAT1'']
     = ([ex_grade, Grade (None, None) 8 (PyStr ''L200'') ''MAT1'', Grade (None, None) 9 (PyStr ''L300'') ''MAT1''], [])
   \<and> g_status (Grade (None, None :: int option) 8 (PyStr ''L200'') ''MAT1'') = None
   \<and> grade_list (None, None) ex_backfill_db (ex_edit_request []) ''MAT1''
     = (ex_backfill_db\<lparr>grades :=
          [ex_grade, Grade (None, None) 8 (PyStr ''L200'') ''MAT1'', Grade (None, None) 9 (PyStr ''L300'') ''MAT1'']\<rparr>,
        Inr ([], Render ''users/grade_list.html''))"
proof -
  let ?d = "(None, None) :: status option \<times> int option"
  let ?g8 = "Grade ?d 8 (PyStr ''L200'') ''MAT1''" and ?g9 = "Grade ?d 9 (PyStr ''L300'') ''MAT1''"
  let ?p = "\<lparr>prof_pk = PyStr ''A'', prof_user = 3\<rparr>"
  have f: "grades ex_backfill_db = [ex_grade]"
    "subject_inscriptions ex_backfill_db =
      [SubjectInscription (PyStr ''L100'') ''MAT1'', SubjectInscription (PyStr ''L200'') ''MAT1'',
       SubjectInscription (PyStr ''L300'') ''MAT1'', SubjectInscription (PyStr ''L400'') ''DER1'']"
    by (simp_all add: ex_backfill_db_def ex_grade_db_def)
  have a: "backfill_missing_grades ?d ''MAT1'' (subject_inscriptions ex_backfill_db) (grades ex_backfill_db)
     = ([ex_grade, ?g8, ?g9], [[?g8, ?g9]])"
    by (simp add: f backfill_missing_grades_def bulk_create_def py_set_def set_minus_def
        SubjectInscription_def ex_grade_def next_grade_id_def Let_def upt_rec)
  note c = backfill_missing_grades_exact[of ?d "''MAT1''" "subject_inscriptions ex_backfill_db"
      "grades ex_backfill_db" "ex_edit_request []" ex_backfill_db]
  have b: "backfill_missing_grades ?d ''MAT1'' (subject_inscriptions ex_backfill_db) [ex_grade, ?g8, ?g9]
     = ([ex_grade, ?g8, ?g9], [])"
    using c[THEN conjunct2, THEN conjunct2, THEN conjunct2, THEN conjunct2, THEN conjunct2,
        THEN conjunct2, THEN conjunct1] unfolding a by simp
  have "?g8 \<in> set (concat (snd (backfill_missing_grades ?d ''MAT1'' (subject_inscriptions ex_backfill_db)
                (grades ex_backfill_db))))" unfolding a by simp
  then have s: "g_status ?g8 = None"
    using c[THEN conjunct2, THEN conjunct2, THEN conjunct2, THEN conjunct2, THEN conjunct2,
        THEN conjunct1] by fastforce
  have u: "req_user (ex_edit_request []) = Some ex_professor_user"
    and ip: "is_professor (Some ex_professor_user)"
    by (simp_all add: ex_edit_request_def is_professor_def ex_professor_user_def)
  have pr: "user_professor ex_backfill_db ex_professor_user = Inr ?p"
    by (simp add: user_professor_def ex_backfill_db_def ex_grade_db_def ex_db_def ex_professor_user_def)
  have sb: "filter (\<lambda>s. sub_code s = ''MAT1'' \<and> (sub_code s, prof_pk ?p) \<in> set (subject_professors ex_backfill_db))
              (subjects ex_backfill_db) = [\<lparr>sub_code = ''MAT1'', sub_career = ''ISI''\<rparr>]"
    by (simp add: ex_backfill_db_def ex_grade_db_def ex_db_def)
  have v: "grade_list ?d ex_backfill_db (ex_edit_request []) ''MAT1''
     = (ex_backfill_db\<lparr>grades := [ex_grade, ?g8, ?g9]\<rparr>, Inr ([], Render ''users/grade_list.html''))"
    using c[THEN conjunct2, THEN conjunct2, THEN conjunct2, THEN conjunct2, THEN conjunct2,
        THEN conjunct2, THEN conjunct2, rule_format, OF conjI[OF u conjI[OF ip conjI[OF pr sb]]]]
    unfolding a by simp
  show ?thesis by (intro conjI a b s v)
qed

subsection \<open>The student file\<close>












subsection \<open>Changing the role of a user\<close>

text \<open>
  C1.  \<^verbatim>\<open>UserUpdateView.form_valid\<close> deletes the profiles of the old role before it
  enters \<^verbatim>\<open>transaction.atomic()\<close>, and leaves the block by
  \<^verbatim>\<open>return self.form_invalid(form)\<close> when the new role's profile form does not validate,
  which commits what the block did.  So on a role change with an invalid profile form the
  view answers with the form page and the database has lost the old profiles, holds no
  profile at all for the user, and has the user saved with the new role: the deletion took
  effect and the new profile did not.
\<close>

theorem role_change_not_atomic:
  assumes usr: "filter (\<lambda>u. u_id u = pk) (users db) = [usr]"
    and change: "uf_role form \<noteq> u_role usr"
    and invalid: "profile_form_invalid forms req (uf_role form)
                    (save_user form usr (delete_profiles (u_id usr) db))"
  shows "form_valid forms db req pk form =
           (save_user form usr (delete_profiles (u_id usr) db),
            Inr ([Msg_old_profile_deleted], Render ''users/user_form.html''))
       \<and> filter (\<lambda>r. stu_user r = pk) (students (fst (form_valid forms db req pk form))) = []
       \<and> filter (\<lambda>r. prof_user r = pk) (professors (fst (form_valid forms db req pk form))) = []
       \<and> filter (\<lambda>r. adm_user r = pk) (administrators (fst (form_valid forms db req pk form))) = []
       \<and> map u_role (filter (\<lambda>u. u_id u = pk) (users (fst (form_valid forms db req pk form))))
            = [uf_role form]"
proof -
  have pk: "u_id usr = pk" using filter_single[OF usr] .
  have blk: "update_block forms req form usr (delete_profiles (u_id usr) db) =
               (save_user form usr (delete_profiles (u_id usr) db), Inr (Some (Render ''users/user_form.html'')))"
    using invalid by (cases "uf_role form") (simp_all add: update_block_def profile_form_invalid_def Let_def)
  have res: "form_valid forms db req pk form =
           (save_user form usr (delete_profiles (u_id usr) db),
            Inr ([Msg_old_profile_deleted], Render ''users/user_form.html''))"
    using change by (simp add: form_valid_def usr Let_def atomic_def blk)
  have us: "map u_role (filter (\<lambda>u. u_id u = pk) (users (save_user form usr (delete_profiles (u_id usr) db))))
            = [uf_role form]"
  proof -
    have "filter (\<lambda>u. u_id u = pk)
            (map (\<lambda>u. if u_id u = u_id usr
                       then usr\<lparr>u_role := uf_role form, u_full_name := uf_full_name form, u_dni := uf_dni form\<rparr>
                       else u) xs)
          = map (\<lambda>u. usr\<lparr>u_role := uf_role form, u_full_name := uf_full_name form, u_dni := uf_dni form\<rparr>)
              (filter (\<lambda>u. u_id u = pk) xs)" for xs
      by (induction xs) (simp_all add: pk)
    then show ?thesis using usr by (simp add: save_user_def delete_profiles_def)
  qed
  show ?thesis unfolding res using us
    by (simp add: save_user_def delete_profiles_def pk filter_empty_conv)
qed

theorem role_change_not_atomic_witness:
  "form_valid ex_forms ex_db ex_update_request 2 ex_user_form =
     (ex_db\<lparr>users := [ex_admin, ex_student_user\<lparr>u_role := PROFESSOR\<rparr>, ex_professor_user],
            students := []\<rparr>,
      Inr ([Msg_old_profile_deleted], Render ''users/user_form.html''))
   \<and> filter (\<lambda>r. stu_user r = 2) (students ex_db) = [ex_student]"
proof -
  have u: "filter (\<lambda>u. u_id u = 2) (users ex_db) = [ex_student_user]"
    by (simp add: ex_db_def ex_admin_def ex_student_user_def ex_professor_user_def)
  have ch: "uf_role ex_user_form \<noteq> u_role ex_student_user"
    by (simp add: ex_user_form_def ex_student_user_def)
  have inv: "profile_form_invalid ex_forms ex_update_request (uf_role ex_user_form)
                    (save_user ex_user_form ex_student_user (delete_profiles (u_id ex_student_user) ex_db))"
    by (simp add: profile_form_invalid_def ex_forms_def ex_user_form_def)
  have d: "save_user ex_user_form ex_student_user (delete_profiles (u_id ex_student_user) ex_db) =
     ex_db\<lparr>users := [ex_admin, ex_student_user\<lparr>u_role := PROFESSOR\<rparr>, ex_professor_user],
            students := []\<rparr>"
    by (simp add: save_user_def delete_profiles_def ex_db_def ex_user_form_def ex_admin_def
        ex_student_user_def ex_professor_user_def ex_student_def)
  have a: "form_valid ex_forms ex_db ex_update_request 2 ex_user_form =
     (ex_db\<lparr>users := [ex_admin, ex_student_user\<lparr>u_role := PROFESSOR\<rparr>, ex_professor_user],
            students := []\<rparr>,
      Inr ([Msg_old_profile_deleted], Render ''users/user_form.html''))"
    using role_change_not_atomic[OF u ch inv, THEN conjunct1] unfolding d .
  have b: "filter (\<lambda>r. stu_user r = 2) (students ex_db) = [ex_student]"
    by (simp add: ex_db_def ex_student_def)
  show ?thesis by (intro conjI a b)
qed

end
